theory Spec2Isabelle
  imports Complex_Main "HOL-Library.Char_ord" "HOL-Library.List_Lexorder"
begin

section \<open>Values, exceptions and notifications\<close>

text \<open>
  Keyword dictionaries (the \<open>error_kwargs\<close> of a \<open>GameException\<close>, the parameters of a
  notification) are association lists, written in the order in which the source builds
  them. In the progress engine and the decay of progress, Python floats are the real
  numbers they denote; the sections on materials and on combat model their rounding.
\<close>

datatype pyval =
  PStr string | PInt int | PReal real | PList "pyval list" | PDict "(string \<times> pyval) list"

type_synonym kwargs = "(string \<times> pyval) list"

type_synonym entity_id = nat

subsection \<open>Dictionaries\<close>

text \<open>
  A dictionary is the list of its items in insertion order. \<open>dict_set\<close> is
  \<open>d[k] = v\<close> and \<open>dict_update\<close> is \<open>d.update(other)\<close>: the value of a key that is present
  is replaced in place, a new key is added at the end.
\<close>

fun dict_set :: "('k \<times> 'v) list \<Rightarrow> 'k \<Rightarrow> 'v \<Rightarrow> ('k \<times> 'v) list" where
  "dict_set [] k v = [(k, v)]"
| "dict_set ((k', v') # rest) k v = (if k' = k then (k, v) # rest else (k', v') # dict_set rest k v)"

definition dict_update :: "('k \<times> 'v) list \<Rightarrow> ('k \<times> 'v) list \<Rightarrow> ('k \<times> 'v) list" where
  "dict_update d other = fold (\<lambda>(k, v) d'. dict_set d' k v) other d"

subsection \<open>Floats\<close>

text \<open>
  Where a result depends on it, the rounding of Python's floats (IEEE 754 binary64, round
  to nearest, ties to even) is modelled: a float is the real number it denotes, \<open>fl x\<close> is
  the double nearest to the real number \<open>x\<close> (for \<open>x\<close> in the range of normal doubles; overflow
  is not modelled), a literal \<open>c\<close> is \<open>fl c\<close>, and \<open>a * b\<close>, \<open>a / b\<close>, \<open>a + b\<close>, \<open>a - b\<close> are \<open>fl\<close>
  of the exact result. \<open>bits n\<close> is the length of the binary numeral \<open>n\<close> and \<open>ilog2 x\<close> the
  integer part of the binary logarithm of \<open>x > 0\<close>. \<open>int(x)\<close> truncates toward zero.
\<close>

fun bits :: "nat \<Rightarrow> nat" where
  "bits n = (if n = 0 then 0 else Suc (bits (n div 2)))"

declare bits.simps [simp del]

definition pow2 :: "int \<Rightarrow> real" where
  "pow2 e = (if 0 \<le> e then 2 ^ nat e else 1 / 2 ^ nat (- e))"

definition ilog2 :: "real \<Rightarrow> int" where
  "ilog2 x =
     (if 1 \<le> x then int (bits (nat \<lfloor>x\<rfloor>)) - 1 else - int (bits (nat (\<lceil>1 / x\<rceil> - 1))))"

definition round_half_even :: "real \<Rightarrow> int" where
  "round_half_even x =
     (let f = \<lfloor>x\<rfloor>; d = x - of_int f
      in if d < 1 / 2 then f else if 1 / 2 < d then f + 1 else if even f then f else f + 1)"

definition fl :: "real \<Rightarrow> real" where
  "fl x =
     (if x = 0 then 0
      else let e = ilog2 \<bar>x\<bar> - 52
           in sgn x * of_int (round_half_even (\<bar>x\<bar> / pow2 e)) * pow2 e)"

definition trunc :: "real \<Rightarrow> int" where
  "trunc x = (if 0 \<le> x then \<lfloor>x\<rfloor> else \<lceil>x\<rceil>)"

subsection \<open>Exceptions\<close>

text \<open>
  The exception classes of \<open>exeris/core/main.py\<close> that the modelled code raises, each with
  the keyword arguments of its constructor. An argument that the source obtains from
  \<open>entity.pyslatize()\<close> is the resulting dictionary. \<open>GameExceptionSubclass\<close> stands for any
  further subclass of \<open>GameException\<close> (class name, tag, parameters) and \<open>PyException\<close> for
  an exception outside that hierarchy (class name), such as \<open>KeyError\<close>.
\<close>

datatype exn =
    InvalidAmountException int
  | EntityTooFarAwayException kwargs
  | EntityNotInInventoryException kwargs
  | OnlySpecificTypeForGroupException string string
  | ItemNotApplicableForActivityException kwargs kwargs
  | InvalidInitialLocationException kwargs
  | NoInputMaterialException string
  | NoToolForActivityException string
  | NoMachineForActivityException string
  | TooFarFromActivityException string kwargs
  | ActivityTargetTooFarAwayException kwargs
  | TooLowSkillException string real
  | TooFewParticipantsException int
  | TooManyParticipantsException int
  | GameExceptionSubclass string string kwargs
  | PyException string

fun is_GameException :: "exn \<Rightarrow> bool" where
  "is_GameException (PyException _) = False"
| "is_GameException _ = True"

fun error_tag :: "exn \<Rightarrow> string" where
  "error_tag (InvalidAmountException _) = ''error_invalid_amount''"
| "error_tag (EntityTooFarAwayException _) = ''error_entity_too_far_away''"
| "error_tag (EntityNotInInventoryException _) = ''error_entity_not_in_inventory''"
| "error_tag (OnlySpecificTypeForGroupException _ _) = ''error_entity_not_in_inventory''"
| "error_tag (ItemNotApplicableForActivityException _ _) = ''error_entity_not_in_inventory''"
| "error_tag (InvalidInitialLocationException _) = ''error_entity_too_far_away''"
| "error_tag (NoInputMaterialException _) = ''error_no_input_materials''"
| "error_tag (NoToolForActivityException _) = ''error_no_tool_for_activity''"
| "error_tag (NoMachineForActivityException _) = ''error_no_machine_for_activity''"
| "error_tag (TooFarFromActivityException _ _) = ''error_too_far_from_activity''"
| "error_tag (ActivityTargetTooFarAwayException _) = ''error_activity_target_too_far_away''"
| "error_tag (TooLowSkillException _ _) = ''error_too_low_skill''"
| "error_tag (TooFewParticipantsException _) = ''error_activity_target_too_far_away''"
| "error_tag (TooManyParticipantsException _) = ''error_activity_target_too_far_away''"
| "error_tag (GameExceptionSubclass _ tag _) = tag"
| "error_tag (PyException _) = []"

fun error_kwargs :: "exn \<Rightarrow> kwargs" where
  "error_kwargs (InvalidAmountException amount) = [(''amount'', PInt amount)]"
| "error_kwargs (EntityTooFarAwayException entity) = entity"
| "error_kwargs (EntityNotInInventoryException entity) = entity"
| "error_kwargs (OnlySpecificTypeForGroupException type_name group_name) =
     [(''item_name'', PStr type_name), (''group_name'', PStr group_name)]"
| "error_kwargs (ItemNotApplicableForActivityException item activity) = dict_update item activity"
| "error_kwargs (InvalidInitialLocationException entity) = entity"
| "error_kwargs (NoInputMaterialException item_name) = [(''item_name'', PStr item_name)]"
| "error_kwargs (NoToolForActivityException tool_name) = [(''tool_name'', PStr tool_name)]"
| "error_kwargs (NoMachineForActivityException machine_name) =
     [(''machine_name'', PStr machine_name)]"
| "error_kwargs (TooFarFromActivityException name_tag name_params) =
     [(''name_tag'', PStr name_tag), (''name_params'', PDict name_params)]"
| "error_kwargs (ActivityTargetTooFarAwayException entity) = entity"
| "error_kwargs (TooLowSkillException skill_name required_level) =
     [(''skill_name'', PStr skill_name), (''required_level'', PReal required_level)]"
| "error_kwargs (TooFewParticipantsException min_number) = [(''min_number'', PInt min_number)]"
| "error_kwargs (TooManyParticipantsException max_number) = [(''max_number'', PInt max_number)]"
| "error_kwargs (GameExceptionSubclass _ _ params) = params"
| "error_kwargs (PyException _) = []"

subsection \<open>Notifications (\<open>models.Notification\<close>, \<open>WorkProcess.report_failure_notification\<close>)\<close>

record notification =
  title_tag :: string
  title_params :: kwargs
  text_tag :: string
  text_params :: kwargs
  count :: int
  character :: "entity_id option"
  player :: "string option"
  game_date :: int

text \<open>\<open>Notification.__init__\<close>; \<open>now\<close> is \<open>GameDate.now().game_timestamp\<close>.\<close>

definition Notification ::
  "int \<Rightarrow> string \<Rightarrow> kwargs \<Rightarrow> string \<Rightarrow> kwargs \<Rightarrow> entity_id option \<Rightarrow> string option
     \<Rightarrow> notification" where
  "Notification now title_tag' title_params' text_tag' text_params' character' player' =
     \<lparr>title_tag = title_tag', title_params = title_params', text_tag = text_tag',
      text_params = text_params', count = 1, character = character', player = player',
      game_date = now\<rparr>"

text \<open>The \<open>filter_by\<close> of \<open>report_failure_notification\<close>.\<close>

definition matches_failure :: "string \<Rightarrow> kwargs \<Rightarrow> entity_id \<Rightarrow> notification \<Rightarrow> bool" where
  "matches_failure tag params worker n \<longleftrightarrow>
     title_tag n = tag \<and> title_params n = params \<and> text_tag n = tag \<and> text_params n = params
     \<and> character n = Some worker \<and> player n = None"

text \<open>
  The table of notifications is the list of its rows in insertion order; \<open>.first()\<close> takes
  the first matching row, whose \<open>count\<close> is incremented and date refreshed; without a match
  a new row is added.
\<close>

fun bump_first :: "int \<Rightarrow> (notification \<Rightarrow> bool) \<Rightarrow> notification list \<Rightarrow> notification list" where
  "bump_first now p [] = []"
| "bump_first now p (n # ns) =
     (if p n then n\<lparr>count := count n + 1, game_date := now\<rparr> # ns
      else n # bump_first now p ns)"

definition report_failure_notification ::
  "int \<Rightarrow> string \<Rightarrow> kwargs \<Rightarrow> entity_id \<Rightarrow> notification list \<Rightarrow> notification list" where
  "report_failure_notification now tag params worker ns =
     (if list_ex (matches_failure tag params worker) ns
      then bump_first now (matches_failure tag params worker) ns
      else ns @ [Notification now tag params tag params (Some worker) None])"

section \<open>Activities and the decay of their progress\<close>

text \<open>
  One line of the \<open>input\<close> requirement: \<open>needed\<close>, \<open>left\<close>, and the optional keys
  \<open>used_type\<close> and \<open>quality\<close>.
\<close>

record input_req =
  needed :: real
  left :: real
  used_type :: "string option"
  quality :: "real option"

text \<open>
  The requirement map of an activity, with the categories that the modelled code reads;
  an absent key is \<open>None\<close>. A dictionary is the list of its items in iteration order
  (\<open>input\<close>: group name and line). The key \<open>target_with_properties\<close>, for which the
  progress engine does nothing (\<open>pass\<close>), has no field.
\<close>

record requirements =
  mandatory_machines :: "string list option"
  optional_machines :: "(string \<times> real) list option"
  targets :: "entity_id list option"
  required_resources :: "string list option"
  location_types :: "string list option"
  terrain_type :: "string list option"
  excluded_by_entities :: "(string \<times> int) list option"
  input :: "(string \<times> input_req) list option"
  mandatory_tools :: "string list option"
  optional_tools :: "(string \<times> real) list option"
  skills :: "(string \<times> real) list option"
  min_workers :: "int option"
  max_workers :: "int option"

record activity =
  name_tag :: string
  name_params :: kwargs
  reqs :: requirements
  ticks_needed :: real
  ticks_left :: real
  quality_sum :: real
  quality_ticks :: int

definition DEFAULT_PROGRESS :: real where
  "DEFAULT_PROGRESS = 5"

text \<open>
  \<open>DecayProcess.decay_progress_of_activities\<close>: the query selects the activities with
  \<open>ticks_left < ticks_needed\<close>; each of them is updated, the others are left as they are.
\<close>

definition decay_progress :: "activity \<Rightarrow> activity" where
  "decay_progress a = a\<lparr>ticks_left := ticks_left a + min DEFAULT_PROGRESS (ticks_needed a)\<rparr>"

definition decay_progress_of_activities :: "activity list \<Rightarrow> activity list" where
  "decay_progress_of_activities activities =
     map (\<lambda>a. if ticks_left a < ticks_needed a then decay_progress a else a) activities"

section \<open>The activity progress engine (\<open>ActivityProgressProcess\<close>, \<open>ActivityProgress\<close>)\<close>

text \<open>
  The module \<open>exeris.core.general\<close> (ranges, item queries) and the database are not part
  of the sources; what the engine asks of them is a parameter, the record \<open>world\<close>:
  \<^item> \<open>machines_near g\<close> and \<open>tools_of w g\<close>: for every item that
    \<open>query_all_types_near\<close> (resp. \<open>query_all_types_in\<close> for worker \<open>w\<close>) returns for the
    types of group \<open>g\<close>, its relative quality \<open>efficiency_of_type[item.type] * item.quality\<close>;
  \<^item> \<open>entities_by_id\<close>: the rows of \<open>Entity.query.filter(Entity.id.in_(target_ids))\<close>;
    \<open>target_is_near\<close>: \<open>SameLocationRange().is_near(location, target)\<close>; \<open>pyslatize\<close>;
  \<^item> \<open>resource_available\<close>, \<open>location_type_name\<close>, \<open>terrain_found\<close>,
    \<open>number_of_entities\<close>: the queries of the corresponding checks;
  \<^item> \<open>has_access w\<close>: \<open>worker.has_access(activity, rng=SameLocationRange())\<close>;
  \<^item> \<open>get_skill_factor\<close>;
  \<^item> \<open>tag_of\<close>: the error tag of an exception class that \<open>main.py\<close> does not declare.
  \<open>EntityType.by_name(name)\<close> is taken to find the type, whose \<open>name\<close> is the key.
\<close>

record world =
  machines_near :: "string \<Rightarrow> real list"
  entities_by_id :: "entity_id list \<Rightarrow> entity_id list"
  target_is_near :: "entity_id \<Rightarrow> bool"
  pyslatize :: "entity_id \<Rightarrow> kwargs"
  resource_available :: "string \<Rightarrow> bool"
  location_type_name :: string
  terrain_found :: "string list \<Rightarrow> bool"
  number_of_entities :: "string \<Rightarrow> int"
  has_access :: "entity_id \<Rightarrow> bool"
  tools_of :: "entity_id \<Rightarrow> string \<Rightarrow> real list"
  get_skill_factor :: "entity_id \<Rightarrow> string \<Rightarrow> real"
  tag_of :: "string \<Rightarrow> string"

text \<open>
  \<open>_get_most_efficient_item_relative_quality\<close> on a non-empty list \<open>q # qs\<close>: the first
  element of the list sorted by relative quality, descending, i.e. the greatest one.
\<close>

definition most_efficient :: "real \<Rightarrow> real list \<Rightarrow> real" where
  "most_efficient q qs = fold max qs q"

definition mean :: "real list \<Rightarrow> real" where
  "mean xs = sum_list xs / real (length xs)"

fun check_mandatory_machines :: "world \<Rightarrow> string list \<Rightarrow> real list \<Rightarrow> exn + real list" where
  "check_mandatory_machines W [] acc = Inr acc"
| "check_mandatory_machines W (machine_name # rest) acc =
     (case machines_near W machine_name of
        [] \<Rightarrow> Inl (NoMachineForActivityException machine_name)
      | q # qs \<Rightarrow> check_mandatory_machines W rest (acc @ [most_efficient q qs]))"

fun check_optional_machines ::
  "world \<Rightarrow> (string \<times> real) list \<Rightarrow> real option \<Rightarrow> real option" where
  "check_optional_machines W [] progress = progress"
| "check_optional_machines W ((machine_type_name, bonus) # rest) progress =
     (case machines_near W machine_type_name of
        [] \<Rightarrow> check_optional_machines W rest progress
      | q # qs \<Rightarrow>
          check_optional_machines W rest
            (Some ((case progress of None \<Rightarrow> 0 | Some p \<Rightarrow> p) + bonus * most_efficient q qs)))"

fun check_targets :: "world \<Rightarrow> entity_id list \<Rightarrow> exn + unit" where
  "check_targets W [] = Inr ()"
| "check_targets W (target # rest) =
     (if \<not> target_is_near W target
      then Inl (ActivityTargetTooFarAwayException (pyslatize W target))
      else check_targets W rest)"

definition check_target_proximity :: "world \<Rightarrow> entity_id list \<Rightarrow> exn + unit" where
  "check_target_proximity W target_ids = check_targets W (entities_by_id W target_ids)"

fun check_required_resources :: "world \<Rightarrow> string list \<Rightarrow> exn + unit" where
  "check_required_resources W [] = Inr ()"
| "check_required_resources W (resource_name # rest) =
     (if \<not> resource_available W resource_name
      then Inl (GameExceptionSubclass ''NoResourceAvailableException''
                  (tag_of W ''NoResourceAvailableException'')
                  [(''resource_name'', PStr resource_name)])
      else check_required_resources W rest)"

definition check_location_types :: "world \<Rightarrow> string list \<Rightarrow> exn + unit" where
  "check_location_types W types =
     (if \<not> List.member types (location_type_name W)
      then Inl (GameExceptionSubclass ''InvalidLocationTypeException''
                  (tag_of W ''InvalidLocationTypeException'')
                  [(''allowed_types'', PList (map PStr types))])
      else Inr ())"

definition check_terrain_types :: "world \<Rightarrow> string list \<Rightarrow> exn + unit" where
  "check_terrain_types W terrain_type_names =
     (if \<not> terrain_found W terrain_type_names
      then Inl (GameExceptionSubclass ''InvalidTerrainTypeException''
                  (tag_of W ''InvalidTerrainTypeException'')
                  [(''required_types'', PList (map PStr terrain_type_names))])
      else Inr ())"

fun check_excluded_by_entities :: "world \<Rightarrow> (string \<times> int) list \<Rightarrow> exn + unit" where
  "check_excluded_by_entities W [] = Inr ()"
| "check_excluded_by_entities W ((entity_type_name, max_number) # rest) =
     (if number_of_entities W entity_type_name \<ge> max_number
      then Inl (GameExceptionSubclass ''TooManyExistingEntitiesException''
                  (tag_of W ''TooManyExistingEntitiesException'')
                  [(''entity_type'', PStr entity_type_name)])
      else check_excluded_by_entities W rest)"

fun check_input_requirements :: "(string \<times> input_req) list \<Rightarrow> exn + unit" where
  "check_input_requirements [] = Inr ()"
| "check_input_requirements ((name, material) # rest) =
     (if left material > 0 then Inl (NoInputMaterialException name)
      else check_input_requirements rest)"

text \<open>
  The checks of \<open>perform_action\<close> that do not depend on a worker, in the order of the
  source; an absent category is skipped. The result is \<open>activity_params\<close>: the keys
  \<open>progress_ratio\<close> and \<open>machine_based_quality\<close>, each present or not.
\<close>

definition on_key :: "'a option \<Rightarrow> ('a \<Rightarrow> exn + unit) \<Rightarrow> exn + unit" where
  "on_key v check = (case v of None \<Rightarrow> Inr () | Some x \<Rightarrow> check x)"

definition shared_checks :: "world \<Rightarrow> requirements \<Rightarrow> exn + (real option \<times> real list option)" where
  "shared_checks W req =
     (case (case mandatory_machines req of None \<Rightarrow> Inr None
            | Some ms \<Rightarrow> map_sum id Some (check_mandatory_machines W ms [])) of
        Inl e \<Rightarrow> Inl e
      | Inr machine_based_quality \<Rightarrow>
     (let progress = (case optional_machines req of None \<Rightarrow> None
                      | Some ms \<Rightarrow> check_optional_machines W ms None) in
      case on_key (targets req) (check_target_proximity W) of Inl e \<Rightarrow> Inl e | Inr _ \<Rightarrow>
      case on_key (required_resources req) (check_required_resources W) of Inl e \<Rightarrow> Inl e | Inr _ \<Rightarrow>
      case on_key (location_types req) (check_location_types W) of Inl e \<Rightarrow> Inl e | Inr _ \<Rightarrow>
      case on_key (terrain_type req) (check_terrain_types W) of Inl e \<Rightarrow> Inl e | Inr _ \<Rightarrow>
      case on_key (excluded_by_entities req) (check_excluded_by_entities W) of Inl e \<Rightarrow> Inl e | Inr _ \<Rightarrow>
      case on_key (input req) check_input_requirements of Inl e \<Rightarrow> Inl e | Inr _ \<Rightarrow>
      Inr (progress, machine_based_quality)))"

subsection \<open>The checks of one worker\<close>

definition check_worker_proximity :: "world \<Rightarrow> activity \<Rightarrow> entity_id \<Rightarrow> exn + unit" where
  "check_worker_proximity W a worker =
     (if \<not> has_access W worker then Inl (TooFarFromActivityException (name_tag a) (name_params a))
      else Inr ())"

fun check_mandatory_tools :: "world \<Rightarrow> entity_id \<Rightarrow> string list \<Rightarrow> real list \<Rightarrow> exn + real list" where
  "check_mandatory_tools W worker [] acc = Inr acc"
| "check_mandatory_tools W worker (tool_type_name # rest) acc =
     (case tools_of W worker tool_type_name of
        [] \<Rightarrow> Inl (NoToolForActivityException tool_type_name)
      | q # qs \<Rightarrow> check_mandatory_tools W worker rest (acc @ [most_efficient q qs]))"

fun check_optional_tools :: "world \<Rightarrow> entity_id \<Rightarrow> (string \<times> real) list \<Rightarrow> real \<Rightarrow> real" where
  "check_optional_tools W worker [] progress = progress"
| "check_optional_tools W worker ((tool_type_name, bonus) # rest) progress =
     (case tools_of W worker tool_type_name of
        [] \<Rightarrow> check_optional_tools W worker rest progress
      | q # qs \<Rightarrow> check_optional_tools W worker rest (progress + bonus * most_efficient q qs))"

fun check_skills :: "world \<Rightarrow> entity_id \<Rightarrow> (string \<times> real) list \<Rightarrow> exn + unit" where
  "check_skills W worker [] = Inr ()"
| "check_skills W worker ((skill_name, min_skill_value) # rest) =
     (if get_skill_factor W worker skill_name < min_skill_value
      then Inl (TooLowSkillException skill_name min_skill_value)
      else check_skills W worker rest)"

text \<open>
  The body of the \<open>try\<close> for one worker up to the point where \<open>worker_impact\<close> is read:
  the result is \<open>worker_impact\<close> (keys \<open>tool_based_quality\<close> and \<open>progress_ratio\<close>, each
  present or not), or the exception raised.
\<close>

definition check_worker ::
  "world \<Rightarrow> activity \<Rightarrow> entity_id \<Rightarrow> exn + (real list option \<times> real option)" where
  "check_worker W a worker =
     (case check_worker_proximity W a worker of Inl e \<Rightarrow> Inl e | Inr _ \<Rightarrow>
      case (case mandatory_tools (reqs a) of None \<Rightarrow> Inr None
            | Some tools \<Rightarrow> map_sum id Some (check_mandatory_tools W worker tools [])) of
        Inl e \<Rightarrow> Inl e
      | Inr tool_based_quality \<Rightarrow>
     (let progress = (case optional_tools (reqs a) of None \<Rightarrow> None
                      | Some bonus \<Rightarrow> Some (check_optional_tools W worker bonus 0)) in
      case on_key (skills (reqs a)) (check_skills W worker) of Inl e \<Rightarrow> Inl e | Inr _ \<Rightarrow>
      Inr (tool_based_quality, progress)))"

text \<open>
  The state of the loop over the workers: \<open>self.tool_based_quality\<close>,
  \<open>self.progress_ratio\<close>, \<open>active_workers\<close> and the notification table.
\<close>

record progress_state =
  tool_based_quality :: "real list"
  progress_ratio :: real
  active_workers :: "entity_id list"
  notifications :: "notification list"

definition worker_step ::
  "world \<Rightarrow> int \<Rightarrow> activity \<Rightarrow> entity_id \<Rightarrow> progress_state \<Rightarrow> exn + progress_state" where
  "worker_step W now a worker s =
     (case check_worker W a worker of
        Inr (tbq, bonus) \<Rightarrow>
          Inr (s\<lparr>tool_based_quality :=
                    (case tbq of None \<Rightarrow> tool_based_quality s
                     | Some qs \<Rightarrow> tool_based_quality s @ qs),
                 progress_ratio :=
                    (case bonus of None \<Rightarrow> progress_ratio s | Some p \<Rightarrow> progress_ratio s + p)
                    + DEFAULT_PROGRESS,
                 active_workers := active_workers s @ [worker]\<rparr>)
      | Inl e \<Rightarrow>
          if is_GameException e
          then Inr (s\<lparr>notifications :=
                        report_failure_notification now (error_tag e) (error_kwargs e) worker
                          (notifications s)\<rparr>)
          else Inl e)"

fun workers_loop ::
  "world \<Rightarrow> int \<Rightarrow> activity \<Rightarrow> entity_id list \<Rightarrow> progress_state \<Rightarrow> exn + progress_state" where
  "workers_loop W now a [] s = Inr s"
| "workers_loop W now a (worker # rest) s =
     (case worker_step W now a worker s of
        Inl e \<Rightarrow> Inl e
      | Inr s' \<Rightarrow> workers_loop W now a rest s')"

subsection \<open>Bounds on the number of workers\<close>

definition check_min_workers :: "entity_id list \<Rightarrow> int \<Rightarrow> exn + unit" where
  "check_min_workers active min_number =
     (if int (length active) < min_number then Inl (TooFewParticipantsException min_number)
      else Inr ())"

definition check_max_workers :: "entity_id list \<Rightarrow> int \<Rightarrow> exn + unit" where
  "check_max_workers active max_number =
     (if int (length active) > max_number then Inl (TooManyParticipantsException max_number)
      else Inr ())"

text \<open>
  Lines 627 to 631 of \<open>actions.py\<close>:
  \<^verbatim>\<open>
  if "max_workers" in req:
      ActivityProgress.check_min_workers(active_workers, req["min_workers"])
  if "min_workers" in req:
      ActivityProgress.check_max_workers(active_workers, req["max_workers"])
  \<close>
  The subscript of a missing key raises \<open>KeyError\<close>.
\<close>

definition subscript :: "'a option \<Rightarrow> exn + 'a" where
  "subscript v = (case v of None \<Rightarrow> Inl (PyException ''KeyError'') | Some x \<Rightarrow> Inr x)"

definition check_workers_bounds :: "requirements \<Rightarrow> entity_id list \<Rightarrow> exn + unit" where
  "check_workers_bounds req active =
     (case (if max_workers req \<noteq> None
            then (case subscript (min_workers req) of Inl e \<Rightarrow> Inl e
                  | Inr min_number \<Rightarrow> check_min_workers active min_number)
            else Inr ()) of
        Inl e \<Rightarrow> Inl e
      | Inr _ \<Rightarrow>
          if min_workers req \<noteq> None
          then (case subscript (max_workers req) of Inl e \<Rightarrow> Inl e
                | Inr max_number \<Rightarrow> check_max_workers active max_number)
          else Inr ())"

subsection \<open>Accrual of quality and progress\<close>

definition calculate_resultant_progress :: "real \<Rightarrow> real \<Rightarrow> real" where
  "calculate_resultant_progress ratio mandatory_equipment_based_quality =
     ratio * sqrt (max 1 mandatory_equipment_based_quality)"

definition add_quality_sample :: "real list \<Rightarrow> activity \<Rightarrow> activity" where
  "add_quality_sample samples a =
     (if length samples \<noteq> 0
      then a\<lparr>quality_sum := quality_sum a + mean samples, quality_ticks := quality_ticks a + 1\<rparr>
      else a)"

fun add_input_quality :: "(string \<times> input_req) list \<Rightarrow> activity \<Rightarrow> activity" where
  "add_input_quality [] a = a"
| "add_input_quality ((group_name, params) # rest) a =
     add_input_quality rest
       (case quality params of None \<Rightarrow> a
        | Some q \<Rightarrow> a\<lparr>quality_sum := quality_sum a + q, quality_ticks := quality_ticks a + 1\<rparr>)"

definition accrue :: "real list \<Rightarrow> real list \<Rightarrow> real \<Rightarrow> activity \<Rightarrow> activity" where
  "accrue tool_quality machine_quality ratio a =
     (let a1 = add_quality_sample tool_quality a;
          a2 = add_quality_sample machine_quality a1;
          mandatory_equipment_based_quality =
            (if length tool_quality \<noteq> 0 \<or> length machine_quality \<noteq> 0
             then mean (tool_quality @ machine_quality) else 1);
          a3 = a2\<lparr>ticks_left := ticks_left a2
                  - calculate_resultant_progress ratio mandatory_equipment_based_quality\<rparr>
      in add_input_quality (case input (reqs a) of None \<Rightarrow> [] | Some i \<Rightarrow> i) a3)"

text \<open>
  \<open>ActivityProgressProcess.perform_action\<close>. The result is the exception that leaves the
  method, or whether \<open>ticks_left <= 0\<close> held at the end, in which case the source calls
  \<open>finish_activity\<close> (the result actions are run and the activity is deleted; not modelled
  here). The activity and the notification table are returned as they are at that moment.
\<close>

definition start_state :: "real option \<Rightarrow> notification list \<Rightarrow> progress_state" where
  "start_state progress ns =
     \<lparr>tool_based_quality = [],
      progress_ratio = (case progress of None \<Rightarrow> 0 | Some p \<Rightarrow> 0 + p),
      active_workers = [], notifications = ns\<rparr>"

definition perform_action ::
  "world \<Rightarrow> int \<Rightarrow> activity \<Rightarrow> entity_id list \<Rightarrow> notification list
     \<Rightarrow> (exn + bool) \<times> activity \<times> notification list" where
  "perform_action W now a workers ns =
     (case shared_checks W (reqs a) of
        Inl e \<Rightarrow> (Inl e, a, ns)
      | Inr (progress, machine_quality) \<Rightarrow>
     (case workers_loop W now a workers (start_state progress ns) of
        Inl e \<Rightarrow> (Inl e, a, ns)
      | Inr s \<Rightarrow>
     (case check_workers_bounds (reqs a) (active_workers s) of
        Inl e \<Rightarrow> (Inl e, a, notifications s)
      | Inr _ \<Rightarrow>
     (let a' = accrue (tool_based_quality s)
                 (case machine_quality of None \<Rightarrow> [] | Some qs \<Rightarrow> qs) (progress_ratio s) a
      in (Inr (ticks_left a' \<le> 0), a', notifications s)))))"

subsection \<open>The notification rows of one recipient\<close>

definition rows_of :: "entity_id \<Rightarrow> notification list \<Rightarrow> notification list" where
  "rows_of w ns = filter (\<lambda>n. character n = Some w) ns"

definition rows_not :: "entity_id \<Rightarrow> notification list \<Rightarrow> notification list" where
  "rows_not w ns = filter (\<lambda>n. character n \<noteq> Some w) ns"

text \<open>Two loop states that differ only in the rows of worker w.\<close>

definition same_but_rows :: "entity_id \<Rightarrow> progress_state \<Rightarrow> progress_state \<Rightarrow> bool" where
  "same_but_rows w s t \<longleftrightarrow>
     tool_based_quality s = tool_based_quality t \<and> progress_ratio s = progress_ratio t
     \<and> active_workers s = active_workers t
     \<and> rows_not w (notifications s) = rows_not w (notifications t)"

subsection \<open>Concrete data for evaluation\<close>

text \<open>
  The empty requirement map, and a world in which every worker is at the activity, worker
  \<open>1\<close> holds one axe of relative quality \<open>1\<close> and nobody else holds a tool.
\<close>

definition no_requirements :: requirements where
  "no_requirements =
     \<lparr>mandatory_machines = None, optional_machines = None, targets = None,
      required_resources = None, location_types = None, terrain_type = None,
      excluded_by_entities = None, input = None, mandatory_tools = None,
      optional_tools = None, skills = None, min_workers = None, max_workers = None\<rparr>"

definition axe_world :: world where
  "axe_world =
     \<lparr>machines_near = (\<lambda>_. []), entities_by_id = (\<lambda>ids. ids), target_is_near = (\<lambda>_. True),
      pyslatize = (\<lambda>_. []), resource_available = (\<lambda>_. True), location_type_name = ''outside'',
      terrain_found = (\<lambda>_. True), number_of_entities = (\<lambda>_. 0), has_access = (\<lambda>_. True),
      tools_of = (\<lambda>worker name. if worker = 1 \<and> name = ''axe'' then [1] else []),
      get_skill_factor = (\<lambda>_ _. 1), tag_of = (\<lambda>_. [])\<rparr>"

definition new_activity :: "requirements \<Rightarrow> real \<Rightarrow> activity" where
  "new_activity req ticks =
     \<lparr>name_tag = ''chopping'', name_params = [], reqs = req, ticks_needed = ticks,
      ticks_left = ticks, quality_sum = 0, quality_ticks = 0\<rparr>"

definition axe_activity :: activity where
  "axe_activity = new_activity (no_requirements\<lparr>mandatory_tools := Some [''axe'']\<rparr>) 10"

section \<open>The continuation registry (\<open>exeris/core/deferred.py\<close>)\<close>

text \<open>
  Python objects as far as \<open>serialize\<close> and \<open>call\<close> look at them: JSON values, rows of
  the database (\<open>Entity cls id\<close> is an instance of the \<open>models.Entity\<close> subclass \<open>cls\<close> with
  that primary key, \<open>EntityType cls name\<close> likewise for \<open>models.EntityType\<close>), and
  instances of other classes with their attribute dictionary.

  What reflection finds out about a class is a \<open>class_decl\<close>: whether it subclasses
  \<open>AbstractAction\<close>, \<open>getfullargspec(__init__).args\<close> without \<open>self\<close>, all parameter
  names, the parameters without default, whether there is a \<open>**kwargs\<close> parameter, the
  keyword arguments of the \<open>@convert\<close> decorator of \<open>__init__\<close> (\<open>None\<close> without
  decorator) and the body of \<open>__init__\<close> as a function from the bound arguments to the
  attributes it sets. The importable modules, what each qualified name reaches and
  \<open>Model.query.get\<close> form the \<open>registry\<close>.
\<close>

datatype pyobj =
    PyNone
  | PyInt int
  | PyStr string
  | PyList "pyobj list"
  | PyDict "(string \<times> pyobj) list"
  | Entity string entity_id
  | EntityType string string
  | Instance string "(string \<times> pyobj) list"

datatype type_decl = ModelClass string | ActionClass | OtherClass

record class_decl =
  is_action :: bool
  init_args :: "string list"
  parameters :: "string list"
  required :: "string list"
  varkw :: bool
  argument_types :: "(string \<times> type_decl option) list option"
  init :: "(string \<times> pyobj) list \<Rightarrow> exn + (string \<times> pyobj) list"

text \<open>
  What a dotted name reaches in an importable module: a class, another callable (its
  result for given keyword arguments), or an object that cannot be called (a module, a
  constant).
\<close>

datatype py_attribute =
    ClassObject class_decl
  | FunctionObject "(string \<times> pyobj) list \<Rightarrow> exn + pyobj"
  | OtherObject

record registry =
  module_exists :: "string \<Rightarrow> bool"
  attribute :: "string \<Rightarrow> py_attribute option"
  query_get :: "string \<Rightarrow> pyobj \<Rightarrow> pyobj"

definition classes :: "registry \<Rightarrow> string \<Rightarrow> class_decl option" where
  "classes R name = (case attribute R name of Some (ClassObject c) \<Rightarrow> Some c | _ \<Rightarrow> None)"

fun split_dot :: "string \<Rightarrow> string \<Rightarrow> string list" where
  "split_dot cur [] = [cur]"
| "split_dot cur (c # cs) = (if c = CHR ''.'' then cur # split_dot [] cs else split_dot (cur @ [c]) cs)"

fun join_dot :: "string list \<Rightarrow> string" where
  "join_dot [] = []"
| "join_dot [x] = x"
| "join_dot (x # y # ys) = x @ ''.'' @ join_dot (y # ys)"

text \<open>
  \<open>object_import\<close>: the module is the name without its last component;
  \<open>__import__('')\<close> raises \<open>ValueError\<close>, an unknown module \<open>ImportError\<close>, and a name
  that the chain of \<open>getattr\<close> does not reach \<open>AttributeError\<close>. Whatever is reached is
  returned.
\<close>

definition module_of :: "string \<Rightarrow> string" where
  "module_of name = join_dot (butlast (split_dot [] name))"

definition object_import :: "registry \<Rightarrow> string \<Rightarrow> exn + py_attribute" where
  "object_import R name =
     (if module_of name = [] then Inl (PyException ''ValueError'')
      else if \<not> module_exists R (module_of name) then Inl (PyException ''ImportError'')
      else case attribute R name of None \<Rightarrow> Inl (PyException ''AttributeError'')
           | Some m \<Rightarrow> Inr m)"

definition bind_arguments :: "class_decl \<Rightarrow> (string \<times> pyobj) list \<Rightarrow> exn + unit" where
  "bind_arguments c kwargs =
     (if (\<not> varkw c \<and> list_ex (\<lambda>(k, v). \<not> List.member (parameters c) k) kwargs)
         \<or> list_ex (\<lambda>p. map_of kwargs p = None) (required c)
      then Inl (PyException ''TypeError'') else Inr ())"

fun sequence :: "(exn + 'a) list \<Rightarrow> exn + 'a list" where
  "sequence [] = Inr []"
| "sequence (Inl e # _) = Inl e"
| "sequence (Inr x # rest) = (case sequence rest of Inl e \<Rightarrow> Inl e | Inr xs \<Rightarrow> Inr (x # xs))"

definition record_parts :: "pyobj \<Rightarrow> exn + (pyobj \<times> pyobj)" where
  "record_parts json_to_call =
     (case json_to_call of
        PyList items \<Rightarrow>
          (case items of
             function_id # kwargs # _ \<Rightarrow> Inr (function_id, kwargs)
           | _ \<Rightarrow> Inl (PyException ''IndexError''))
      | _ \<Rightarrow> Inl (PyException ''AssertionError''))"

datatype conversion = ByQuery string | ByCall | AsIs

definition conversion_of ::
  "(string \<times> type_decl option) list \<Rightarrow> string \<Rightarrow> pyobj \<Rightarrow> conversion" where
  "conversion_of types arg_name arg_value =
     (case map_of types arg_name of
        Some (Some (ModelClass m)) \<Rightarrow>
          (case arg_value of PyInt _ \<Rightarrow> ByQuery m | PyStr _ \<Rightarrow> ByQuery m | _ \<Rightarrow> AsIs)
      | Some (Some ActionClass) \<Rightarrow> (case arg_value of PyList _ \<Rightarrow> ByCall | _ \<Rightarrow> AsIs)
      | _ \<Rightarrow> AsIs)"

text \<open>The size of a value stored in or injected into a record.\<close>

lemma dict_set_vals: "(k', v') \<in> set (dict_set d k v) \<Longrightarrow> (k', v') \<in> set d \<or> v' = v"
  by (induction d) (auto split: if_splits)

lemma dict_update_vals:
  "(k, v) \<in> set (dict_update d other) \<Longrightarrow> (k, v) \<in> set d \<or> v \<in> snd ` set other"
  unfolding dict_update_def
proof (induction other arbitrary: d)
  case Nil then show ?case by simp
next
  case (Cons a other)
  obtain k' v' where a: "a = (k', v')" by (cases a)
  from Cons.prems have "(k, v) \<in> set (fold (\<lambda>(k, v) d'. dict_set d' k v) other (dict_set d k' v'))"
    by (simp add: a)
  from Cons.IH[OF this] show ?case 
    using a by (auto dest: dict_set_vals)
qed

lemma size_in_dict: "(k, v) \<in> set d \<Longrightarrow> size v < Suc (size_list (size_prod (\<lambda>_. 0) size) d)"
  by (induction d) auto

lemma record_parts_size:
  "record_parts json = Inr (f, PyDict d) \<Longrightarrow> size_list (size_prod (\<lambda>_. 0) size) d < size json"
  by (auto simp: record_parts_def split: pyobj.splits list.splits)

lemma map_of_size: "map_of d k = Some v \<Longrightarrow> size v < Suc (size_list (size_prod (\<lambda>_. 0) size) d)"
  by (auto dest!: map_of_SomeD size_in_dict)

text \<open>
  \<open>call\<close>. A class is constructed through the \<open>convert\<close> wrapper of its \<open>__init__\<close>,
  if it has one; another callable is called with the merged keyword arguments; calling
  anything else raises \<open>TypeError\<close>.
\<close>

function call :: "registry \<Rightarrow> pyobj \<Rightarrow> (string \<times> pyobj) list \<Rightarrow> exn + pyobj" where
  "call R json_to_call injected_args =
     (case record_parts json_to_call of Inl e \<Rightarrow> Inl e | Inr (function_id, kwargs) \<Rightarrow>
      case (case function_id of PyStr name \<Rightarrow> map_sum id (Pair name) (object_import R name)
            | _ \<Rightarrow> Inl (PyException ''AttributeError'')) of
        Inl e \<Rightarrow> Inl e
      | Inr (name, func) \<Rightarrow>
      case kwargs of
        PyDict stored \<Rightarrow>
          (case func of
             ClassObject cls \<Rightarrow>
               (case (case argument_types cls of
                        None \<Rightarrow> Inr (dict_update stored injected_args)
                      | Some types \<Rightarrow>
                          sequence (map (\<lambda>(arg_name, arg_value).
                             case conversion_of types arg_name arg_value of
                               ByQuery m \<Rightarrow> Inr (arg_name, query_get R m arg_value)
                             | ByCall \<Rightarrow> map_sum id (Pair arg_name) (call R arg_value [])
                             | AsIs \<Rightarrow> Inr (arg_name, arg_value))
                            (dict_update stored injected_args))) of
                  Inl e \<Rightarrow> Inl e
                | Inr converted_args \<Rightarrow>
                    (case bind_arguments cls converted_args of Inl e \<Rightarrow> Inl e | Inr _ \<Rightarrow>
                     case init cls converted_args of Inl e \<Rightarrow> Inl e
                     | Inr attrs \<Rightarrow> Inr (Instance name attrs)))
           | FunctionObject f \<Rightarrow> f (dict_update stored injected_args)
           | OtherObject \<Rightarrow> Inl (PyException ''TypeError''))
      | _ \<Rightarrow> Inl (PyException ''AttributeError''))"
  by pat_completeness auto

termination
proof (relation "measure (\<lambda>(R, json, injected).
          size json + size_list (size_prod (\<lambda>_. 0) size) injected)", goal_cases)
  case 1
  show ?case by simp
next
  case (2 R json injected_args x2 function_id kwargs x2a name func stored cls types z
      arg_name arg_value)
  from 2 have "(arg_name, arg_value) \<in> set (dict_update stored injected_args)" by simp
  then have "(arg_name, arg_value) \<in> set stored \<or> arg_value \<in> snd ` set injected_args"
    by (rule dict_update_vals)
  moreover from 2 have "size_list (size_prod (\<lambda>_. 0) size) stored < size json"
    by (auto intro: record_parts_size)
  ultimately show ?case
    by (auto dest: size_in_dict)
qed

declare call.simps [simp del]

text \<open>
  \<open>serialize\<close>. The class of an instance is looked up in the registry (an instance of a
  class that the registry does not hold is not serialized); an object without a module
  file has no qualified name (\<open>AttributeError\<close>).
\<close>

function serialize :: "registry \<Rightarrow> pyobj \<Rightarrow> exn + pyobj" where
  "serialize R obj =
     (case obj of
        Instance full_qualified_name attrs \<Rightarrow>
          (case classes R full_qualified_name of
             None \<Rightarrow> Inl (PyException ''AttributeError'')
           | Some cls \<Rightarrow>
               (case sequence (map (\<lambda>arg_name.
                        case map_of attrs arg_name of
                          None \<Rightarrow> Inl (PyException ''AttributeError'')
                        | Some arg_value \<Rightarrow>
                            (case arg_value of
                               Entity _ ident \<Rightarrow> Inr (arg_name, PyInt (int ident))
                             | EntityType _ name \<Rightarrow> Inr (arg_name, PyStr name)
                             | Instance c _ \<Rightarrow>
                                 if (case classes R c of None \<Rightarrow> False | Some d \<Rightarrow> is_action d)
                                 then map_sum id (Pair arg_name) (serialize R arg_value)
                                 else Inr (arg_name, arg_value)
                             | _ \<Rightarrow> Inr (arg_name, arg_value)))
                      (init_args cls)) of
                  Inl e \<Rightarrow> Inl e
                | Inr args_to_serialize \<Rightarrow>
                    Inr (PyList [PyStr full_qualified_name, PyDict args_to_serialize])))
      | _ \<Rightarrow> Inl (PyException ''AttributeError''))"
  by pat_completeness auto

termination
  by (relation "measure (\<lambda>(R, obj). size obj)") (auto dest: map_of_size)


declare serialize.simps [simp del]

text \<open>
  Two classes of \<open>actions.py\<close>: \<open>JoinActivityAction(executor, activity)\<close>, whose
  \<open>__init__\<close> is not decorated and sets \<open>executor\<close>, \<open>entity\<close>, \<open>rng\<close> and \<open>activity\<close>
  through its superclasses, and \<open>WorkOnActivityAction\<close> with
  \<open>@convert(executor=models.Character, activity=models.Activity)\<close>. The database holds
  character \<open>5\<close> and activity \<open>7\<close>.
\<close>

definition same_range :: pyobj where
  "same_range = Instance ''exeris.core.general.SameLocationRange'' []"

definition JoinActivityAction :: class_decl where
  "JoinActivityAction =
     \<lparr>is_action = True, init_args = [''executor'', ''activity''],
      parameters = [''executor'', ''activity''], required = [''executor'', ''activity''],
      varkw = False, argument_types = None,
      init = (\<lambda>kw. case (map_of kw ''executor'', map_of kw ''activity'') of
                (Some executor, Some activity) \<Rightarrow>
                   Inr [(''executor'', executor), (''entity'', activity), (''rng'', same_range),
                        (''activity'', activity)]
              | _ \<Rightarrow> Inl (PyException ''TypeError''))\<rparr>"

definition WorkOnActivityAction :: class_decl where
  "WorkOnActivityAction =
     \<lparr>is_action = True, init_args = [''executor'', ''activity''],
      parameters = [''executor'', ''activity''], required = [''executor'', ''activity''],
      varkw = False,
      argument_types = Some [(''executor'', Some (ModelClass ''Character'')),
                             (''activity'', Some (ModelClass ''Activity''))],
      init = (\<lambda>kw. case (map_of kw ''executor'', map_of kw ''activity'') of
                (Some executor, Some activity) \<Rightarrow>
                   Inr [(''executor'', executor), (''activity'', activity)]
              | _ \<Rightarrow> Inl (PyException ''TypeError''))\<rparr>"

definition actions_registry :: registry where
  "actions_registry =
     \<lparr>module_exists = (\<lambda>m. m = ''exeris.core.actions''),
      attribute =
        (\<lambda>n. if n = ''exeris.core.actions.JoinActivityAction''
             then Some (ClassObject JoinActivityAction)
             else if n = ''exeris.core.actions.WorkOnActivityAction''
             then Some (ClassObject WorkOnActivityAction)
             else if n = ''exeris.core.actions.form_on_setup''
             then Some (FunctionObject (\<lambda>kwargs. Inr (Instance ''builtins.function'' [])))
             else if n = ''exeris.core.actions.logger'' then Some OtherObject
             else None),
      query_get = (\<lambda>m key. if key = PyInt 5 \<and> m = ''Character'' then Entity ''Character'' 5
                            else if key = PyInt 7 \<and> m = ''Activity'' then Entity ''Activity'' 7
                            else PyNone)\<rparr>"

section \<open>The tick scheduler (\<open>WorkProcess\<close>)\<close>

text \<open>
  The session holds the tables that the scheduler itself reads and writes (intents,
  notifications, activities) and, as \<open>other_tables\<close>, everything else an action can
  change. \<open>begin_nested\<close> remembers the session, \<open>rollback\<close> returns to the remembered
  one and \<open>commit\<close> keeps the current one.

  Parameters (\<open>work_env\<close>): the registry for \<open>deferred.call\<close>; membership in the family
  \<open>main.TurningIntoIntentExceptionMixin\<close>, which \<open>main.py\<close> does not declare;
  \<open>perform\<close>, the effect of \<open>action.perform()\<close>: the result (an exception or the truth
  value of the returned object) and the session at that moment; the world that the
  progress engine queries for an activity; \<open>ActivityProgress.finish_activity\<close>; the
  game time.
\<close>

datatype intent_type = WORK | COMBAT | COMBAT_AUXILIARY_ACTION

record intent =
  intent_id :: nat
  executor :: entity_id
  intent_kind :: intent_type
  priority :: int
  target :: "entity_id option"
  serialized_action :: pyobj

record 'w session =
  intents :: "intent list"
  notification_table :: "notification list"
  activities :: "(entity_id \<times> activity) list"
  other_tables :: 'w

record 'w work_env =
  classes_known :: registry
  turning_into_intent :: "exn \<Rightarrow> bool"
  perform :: "pyobj \<Rightarrow> 'w session \<Rightarrow> (exn + bool) \<times> 'w session"
  world_of :: "'w session \<Rightarrow> entity_id \<Rightarrow> world"
  finish_activity :: "entity_id \<Rightarrow> 'w session \<Rightarrow> (exn + unit) \<times> 'w session"
  game_now :: int

definition is_WorkOnActivityAction :: "pyobj \<Rightarrow> bool" where
  "is_WorkOnActivityAction action =
     (case action of Instance name _ \<Rightarrow> name = ''exeris.core.actions.WorkOnActivityAction''
      | _ \<Rightarrow> False)"

definition getattr :: "pyobj \<Rightarrow> string \<Rightarrow> exn + pyobj" where
  "getattr obj name =
     (case obj of
        Instance _ attrs \<Rightarrow>
          (case map_of attrs name of None \<Rightarrow> Inl (PyException ''AttributeError'')
           | Some v \<Rightarrow> Inr v)
      | _ \<Rightarrow> Inl (PyException ''AttributeError''))"

fun add_worker ::
  "(pyobj \<times> entity_id list) list \<Rightarrow> pyobj \<Rightarrow> entity_id \<Rightarrow> (pyobj \<times> entity_id list) list" where
  "add_worker [] activity worker = [(activity, [worker])]"
| "add_worker ((a, ws) # rest) activity worker =
     (if a = activity then (a, ws @ [worker]) # rest else (a, ws) # add_worker rest activity worker)"

definition delete_intent :: "intent \<Rightarrow> 'w session \<Rightarrow> 'w session" where
  "delete_intent i db = db\<lparr>intents := filter (\<lambda>j. intent_id j \<noteq> intent_id i) (intents db)\<rparr>"

text \<open>
  The \<open>try\<close> statement for an intent whose action is not a \<open>WorkOnActivityAction\<close>:
  the \<open>except\<close> clauses are tried in the order of the source, the retry family first.
\<close>

definition run_intent ::
  "'w work_env \<Rightarrow> intent \<Rightarrow> pyobj \<Rightarrow> 'w session \<Rightarrow> (exn + unit) \<times> 'w session" where
  "run_intent E work_intent action_to_perform db =
     (case perform E action_to_perform db of
        (Inr result, db') \<Rightarrow> (Inr (), if result then delete_intent work_intent db' else db')
      | (Inl e, db') \<Rightarrow>
          if turning_into_intent E e then (Inr (), db)
          else if is_GameException e
          then (Inr (),
                db\<lparr>notification_table :=
                     report_failure_notification (game_now E) (error_tag e) (error_kwargs e)
                       (executor work_intent) (notification_table db)\<rparr>)
          else (Inl e, db'))"

text \<open>
  The body of the first loop: \<open>deferred.call\<close> is outside the \<open>try\<close>; the workers of an
  activity are collected under the value of the action's \<open>activity\<close> attribute.
\<close>

definition work_step ::
  "'w work_env \<Rightarrow> intent \<Rightarrow> 'w session \<times> (pyobj \<times> entity_id list) list
     \<Rightarrow> (exn + unit) \<times> 'w session \<times> (pyobj \<times> entity_id list) list" where
  "work_step E work_intent st =
     (case st of (db, activities_to_progress) \<Rightarrow>
      case call (classes_known E) (serialized_action work_intent) [] of
        Inl e \<Rightarrow> (Inl e, db, activities_to_progress)
      | Inr action_to_perform \<Rightarrow>
          if is_WorkOnActivityAction action_to_perform
          then (case getattr action_to_perform ''activity'' of
                  Inl e \<Rightarrow> (Inl e, db, activities_to_progress)
                | Inr activity \<Rightarrow>
                    (Inr (), db, add_worker activities_to_progress activity (executor work_intent)))
          else (case run_intent E work_intent action_to_perform db of
                  (r, db') \<Rightarrow> (r, db', activities_to_progress)))"

fun work_loop ::
  "'w work_env \<Rightarrow> intent list \<Rightarrow> 'w session \<times> (pyobj \<times> entity_id list) list
     \<Rightarrow> (exn + unit) \<times> 'w session \<times> (pyobj \<times> entity_id list) list" where
  "work_loop E [] st = (Inr (), st)"
| "work_loop E (work_intent # rest) st =
     (case work_step E work_intent st of
        (Inl e, st') \<Rightarrow> (Inl e, st')
      | (Inr _, st') \<Rightarrow> work_loop E rest st')"

text \<open>
  The body of the second loop: \<open>ActivityProgressProcess(activity, workers).perform()\<close>
  in its own savepoint. There are two \<open>except\<close> clauses here: a \<open>GameException\<close> is
  rolled back and reported to every worker of the group, anything else is raised again.
\<close>

definition progress_activity ::
  "'w work_env \<Rightarrow> pyobj \<Rightarrow> entity_id list \<Rightarrow> 'w session \<Rightarrow> (exn + unit) \<times> 'w session" where
  "progress_activity E activity workers db =
     (case (case activity of Entity _ ident \<Rightarrow> map_of (activities db) ident | _ \<Rightarrow> None) of
        None \<Rightarrow> (Inl (PyException ''AttributeError''), db)
      | Some a \<Rightarrow>
          (let ident = (case activity of Entity _ i \<Rightarrow> i | _ \<Rightarrow> 0);
               (r, a', ns) = perform_action (world_of E db ident) (game_now E) a workers
                               (notification_table db);
               db1 = db\<lparr>notification_table := ns,
                        activities := dict_set (activities db) ident a'\<rparr>;
               (r', db2) = (case r of Inl e \<Rightarrow> (Inl e, db1)
                            | Inr finished \<Rightarrow>
                                if finished then finish_activity E ident db1 else (Inr (), db1))
           in case r' of
                Inr _ \<Rightarrow> (Inr (), db2)
              | Inl e \<Rightarrow>
                  if is_GameException e
                  then (Inr (),
                        db\<lparr>notification_table :=
                             fold (report_failure_notification (game_now E) (error_tag e)
                                     (error_kwargs e))
                               workers (notification_table db)\<rparr>)
                  else (Inl e, db2)))"

fun activities_loop ::
  "'w work_env \<Rightarrow> (pyobj \<times> entity_id list) list \<Rightarrow> 'w session \<Rightarrow> (exn + unit) \<times> 'w session" where
  "activities_loop E [] db = (Inr (), db)"
| "activities_loop E ((activity, workers) # rest) db =
     (case progress_activity E activity workers db of
        (Inl e, db') \<Rightarrow> (Inl e, db')
      | (Inr _, db') \<Rightarrow> activities_loop E rest db')"

text \<open>
  \<open>Intent.query.filter_by(type=WORK).order_by(Intent.priority.desc()).all()\<close>; intents of
  equal priority keep the order of the table.
\<close>

definition work_intents :: "'w session \<Rightarrow> intent list" where
  "work_intents db =
     sort_key (\<lambda>i. - priority i) (filter (\<lambda>i. intent_kind i = WORK) (intents db))"

definition WorkProcess_perform_action ::
  "'w work_env \<Rightarrow> 'w session \<Rightarrow> (exn + unit) \<times> 'w session" where
  "WorkProcess_perform_action E db =
     (case work_loop E (work_intents db) (db, []) of
        (Inl e, db', _) \<Rightarrow> (Inl e, db')
      | (Inr _, db', activities_to_progress) \<Rightarrow> activities_loop E activities_to_progress db')"

text \<open>
  For evaluation: a scheduler whose actions delete every intent and then raise \<open>e\<close>,
  with one exception in the retry family, and a session with one \<open>WORK\<close> intent of
  character \<open>5\<close>, a serialized \<open>JoinActivityAction\<close>.
\<close>

definition failing_env :: "exn \<Rightarrow> unit work_env" where
  "failing_env e =
     \<lparr>classes_known = actions_registry,
      turning_into_intent = (\<lambda>x. x = GameExceptionSubclass ''NotYetArrived'' ''retry'' []),
      perform = (\<lambda>action db. (Inl e, db\<lparr>intents := []\<rparr>)),
      world_of = (\<lambda>db activity. axe_world),
      finish_activity = (\<lambda>activity db. (Inr (), db)),
      game_now = 0\<rparr>"

definition join_intent :: intent where
  "join_intent =
     \<lparr>intent_id = 1, executor = 5, intent_kind = WORK, priority = 1, target = Some 7,
      serialized_action =
        PyList [PyStr ''exeris.core.actions.JoinActivityAction'',
                PyDict [(''executor'', PyInt 5), (''activity'', PyInt 7)]]\<rparr>"

definition one_intent_session :: "unit session" where
  "one_intent_session =
     \<lparr>intents = [join_intent], notification_table = [], activities = [], other_tables = ()\<rparr>"

definition joined :: pyobj where
  "joined = Instance ''exeris.core.actions.JoinActivityAction''
                [(''executor'', PyInt 5), (''entity'', PyInt 7), (''rng'', same_range),
                 (''activity'', PyInt 7)]"

section \<open>Committing materials to an activity and un-committing them\<close>

text \<open>
  Items (\<open>models.Item\<close>) with the columns that the modelled code reads: the parent and
  the role of the ownership edge (\<open>being_in\<close> or \<open>used_for\<close>), the weight, the quality.
  The \<open>catalogue\<close> holds the item types and groups (\<open>stackable\<close>, \<open>unit_weight\<close>,
  \<open>TypeGroup.contains\<close>, \<open>quantity_efficiency\<close>, and \<open>quality_efficiency\<close>, which only a
  group has: \<open>None\<close> is the \<open>AttributeError\<close> of a plain type), the answers of
  \<open>executor.has_access\<close> for the item and the activity, and \<open>pyslatize\<close>. Events and
  hooks are not modelled.

  The numbers of a requirement line (\<open>needed\<close>, \<open>left\<close>, \<open>quality\<close>), the efficiencies and
  the quality of an item are doubles, and every operation on them is rounded (\<open>fl\<close>); an
  integer of the source takes part in such an operation as the double of its value
  (\<open>fl (of_int n)\<close>). \<open>math.ceil\<close> of a double is the integer \<open>\<lceil>x\<rceil>\<close>.
\<close>

datatype role = ROLE_BEING_IN | ROLE_USED_FOR

record item =
  item_id :: entity_id
  type_name :: string
  weight :: int
  item_quality :: real
  parent_entity :: "entity_id option"
  role :: role
  visible_parts :: "string list"

record catalogue =
  stackable :: "string \<Rightarrow> bool"
  unit_weight :: "string \<Rightarrow> int"
  group_contains :: "string \<Rightarrow> string \<Rightarrow> bool"
  quantity_efficiency :: "string \<Rightarrow> string \<Rightarrow> real"
  quality_efficiency :: "string \<Rightarrow> string \<Rightarrow> real option"
  can_reach_item :: bool
  can_reach_activity :: bool
  slatize :: "entity_id \<Rightarrow> kwargs"

record add_action =
  add_executor :: entity_id
  add_item :: entity_id
  add_activity :: entity_id
  add_amount :: int

record add_state =
  item_table :: "item list"
  fresh_id :: entity_id
  act :: activity

text \<open>
  \<open>Entity.being_in\<close>, \<open>Item.amount\<close> (\<open>int(weight / unit_weight)\<close>: the quotient of the two
  integers is a double, which \<open>int\<close> truncates toward zero) and \<open>Item.remove\<close>.
\<close>

definition being_in :: "item \<Rightarrow> entity_id option" where
  "being_in it = (if role it \<noteq> ROLE_BEING_IN then None else parent_entity it)"

definition item_amount :: "catalogue \<Rightarrow> item \<Rightarrow> exn + int" where
  "item_amount C it =
     (if \<not> stackable C (type_name it) then Inr 1
      else if unit_weight C (type_name it) = 0 then Inl (PyException ''ZeroDivisionError'')
      else Inr (trunc (fl (of_int (weight it) / of_int (unit_weight C (type_name it))))))"

definition remove_item :: "item \<Rightarrow> item list \<Rightarrow> item list" where
  "remove_item it table =
     map (\<lambda>x. if role x = ROLE_BEING_IN \<and> parent_entity x = Some (item_id it)
               then x\<lparr>parent_entity := being_in it, role := ROLE_BEING_IN\<rparr> else x)
       (filter (\<lambda>x. item_id x \<noteq> item_id it) table)"

text \<open>
  \<open>move_stackable_resource\<close> with \<open>to_be_used_for=True\<close>: the weight leaves the item
  (which is removed when nothing is left) and joins the first pile of the same type and
  visible parts that is used for the goal, or a new pile.
\<close>

definition same_pile :: "item \<Rightarrow> entity_id \<Rightarrow> item \<Rightarrow> bool" where
  "same_pile it goal p \<longleftrightarrow>
     type_name p = type_name it \<and> parent_entity p = Some goal \<and> role p = ROLE_USED_FOR
     \<and> visible_parts p = visible_parts it"

fun update_first :: "('a \<Rightarrow> bool) \<Rightarrow> ('a \<Rightarrow> 'a) \<Rightarrow> 'a list \<Rightarrow> 'a list" where
  "update_first p f [] = []"
| "update_first p f (x # xs) = (if p x then f x # xs else x # update_first p f xs)"

definition move_stackable_resource :: "item \<Rightarrow> entity_id \<Rightarrow> int \<Rightarrow> add_state \<Rightarrow> add_state" where
  "move_stackable_resource it goal w S =
     (let table1 = (if weight it = w then remove_item it (item_table S)
                    else update_first (\<lambda>x. item_id x = item_id it)
                           (\<lambda>x. x\<lparr>weight := weight x - w\<rparr>) (item_table S))
      in if list_ex (same_pile it goal) table1
         then S\<lparr>item_table := update_first (same_pile it goal) (\<lambda>p. p\<lparr>weight := weight p + w\<rparr>) table1\<rparr>
         else S\<lparr>item_table := table1 @
                   [\<lparr>item_id = fresh_id S, type_name = type_name it, weight = w, item_quality = 1,
                     parent_entity = Some goal, role = ROLE_USED_FOR,
                     visible_parts = visible_parts it\<rparr>],
                 fresh_id := Suc (fresh_id S)\<rparr>)"

definition move_entity_between_entities ::
  "catalogue \<Rightarrow> item \<Rightarrow> entity_id option \<Rightarrow> entity_id \<Rightarrow> int \<Rightarrow> add_state
     \<Rightarrow> (exn + unit) \<times> add_state" where
  "move_entity_between_entities C it source destination amount S =
     (if parent_entity it = source
      then (if stackable C (type_name it)
            then (Inr (), move_stackable_resource it destination
                            (amount * unit_weight C (type_name it)) S)
            else (Inr (), S\<lparr>item_table :=
                    update_first (\<lambda>x. item_id x = item_id it)
                      (\<lambda>x. x\<lparr>parent_entity := Some destination, role := ROLE_USED_FOR\<rparr>)
                      (item_table S)\<rparr>))
      else (Inl (InvalidInitialLocationException (slatize C (item_id it))), S))"

text \<open>
  \<open>AddEntityToActivityAction.perform_action\<close>. \<open>commit\<close> is the rest of the loop body
  once a line is chosen, up to \<open>break\<close>; its result is the group, \<open>amount_to_add\<close> and
  \<open>material_left_reduction\<close>. The state is returned as it is when an exception leaves
  the method.
\<close>

definition input_lines :: "add_state \<Rightarrow> (string \<times> input_req) list" where
  "input_lines S = (case input (reqs (act S)) of None \<Rightarrow> [] | Some lines \<Rightarrow> lines)"

definition set_line :: "string \<Rightarrow> input_req \<Rightarrow> add_state \<Rightarrow> add_state" where
  "set_line name params S =
     S\<lparr>act := (act S)\<lparr>reqs := (reqs (act S))\<lparr>input := Some (dict_set (input_lines S) name params)\<rparr>\<rparr>\<rparr>"

type_synonym receipt = "string \<times> int \<times> real"

definition commit ::
  "catalogue \<Rightarrow> add_action \<Rightarrow> item \<Rightarrow> string \<Rightarrow> input_req \<Rightarrow> add_state
     \<Rightarrow> (exn + receipt) \<times> add_state" where
  "commit C A it required_group_name required_group_params S =
     (let type_efficiency_ratio = quantity_efficiency C required_group_name (type_name it) in
      if type_efficiency_ratio = 0 then (Inl (PyException ''ZeroDivisionError''), S)
      else
      let max_to_be_added = \<lceil>fl (left required_group_params / type_efficiency_ratio)\<rceil>;
          amount_to_add = min (add_amount A) max_to_be_added
      in case move_entity_between_entities C it (being_in it) (add_activity A) amount_to_add S of
           (Inl e, S1) \<Rightarrow> (Inl e, S1)
         | (Inr _, S1) \<Rightarrow>
             (let material_left_reduction = fl (fl (of_int amount_to_add) * type_efficiency_ratio);
                  params1 = required_group_params
                              \<lparr>left := max 0 (fl (left required_group_params
                                                  - material_left_reduction)),
                               used_type := Some (type_name it)\<rparr>;
                  S2 = set_line required_group_name params1 S1
              in if stackable C (type_name it)
                 then (Inr (required_group_name, amount_to_add, material_left_reduction), S2)
                 else if needed params1 = 0 then (Inl (PyException ''ZeroDivisionError''), S2)
                 else case quality_efficiency C required_group_name (type_name it) of
                        None \<Rightarrow> (Inl (PyException ''AttributeError''), S2)
                      | Some efficiency \<Rightarrow>
                          (let added_to_needed_fraction =
                                 fl (material_left_reduction / needed params1);
                               total_item_quality = fl (efficiency * item_quality it)
                           in (Inr (required_group_name, amount_to_add, material_left_reduction),
                               set_line required_group_name
                                 (params1\<lparr>quality :=
                                     Some (fl (fl (total_item_quality * added_to_needed_fraction)
                                               + (case quality params1 of
                                                    None \<Rightarrow> 0 | Some q \<Rightarrow> q)))\<rparr>)
                                 S2))))"

fun add_loop ::
  "catalogue \<Rightarrow> add_action \<Rightarrow> item \<Rightarrow> (string \<times> input_req) list \<Rightarrow> add_state
     \<Rightarrow> (exn + receipt) \<times> add_state" where
  "add_loop C A it [] S =
     (Inl (ItemNotApplicableForActivityException (slatize C (add_item A))
             (slatize C (add_activity A))), S)"
| "add_loop C A it ((required_group_name, required_group_params) # later) S =
     (case used_type required_group_params of
        Some t \<Rightarrow>
          if t \<noteq> type_name it
          then (Inl (OnlySpecificTypeForGroupException t required_group_name), S)
          else if left required_group_params = 0 then add_loop C A it later S
          else if \<not> group_contains C required_group_name (type_name it)
          then add_loop C A it later S
          else commit C A it required_group_name required_group_params S
      | None \<Rightarrow>
          if left required_group_params = 0 then add_loop C A it later S
          else if \<not> group_contains C required_group_name (type_name it)
          then add_loop C A it later S
          else commit C A it required_group_name required_group_params S)"

definition AddEntityToActivityAction_perform ::
  "catalogue \<Rightarrow> add_action \<Rightarrow> add_state \<Rightarrow> (exn + receipt) \<times> add_state" where
  "AddEntityToActivityAction_perform C A S =
     (case find (\<lambda>x. item_id x = add_item A) (item_table S) of
        None \<Rightarrow> (Inl (PyException ''AttributeError''), S)
      | Some it \<Rightarrow>
          if \<not> can_reach_item C then (Inl (EntityNotInInventoryException (slatize C (add_item A))), S)
          else if \<not> can_reach_activity C
          then (Inl (TooFarFromActivityException (name_tag (act S)) (name_params (act S))), S)
          else case item_amount C it of
                 Inl e \<Rightarrow> (Inl e, S)
               | Inr n \<Rightarrow>
                   if add_amount A > n then (Inl (InvalidAmountException (add_amount A)), S)
                   else add_loop C A it (sort_key fst (input_lines S)) S)"

text \<open>
  \<open>DecayProcess.update_activity_requirements\<close>: \<open>uncommit\<close> is the body of the loop for
  one matching line (the new line, the remaining \<open>amount_to_be_removed\<close>, and what was
  added to \<open>left\<close>); the result of the loop lists what was added to \<open>left\<close> per group.
\<close>

definition uncommit ::
  "catalogue \<Rightarrow> string \<Rightarrow> real \<Rightarrow> string \<Rightarrow> input_req \<Rightarrow> (exn + real) \<times> input_req \<times> real" where
  "uncommit C item_type_name amount_to_be_removed group_name requirement_params =
     (let item_to_group_multiplier = quantity_efficiency C group_name item_type_name;
          units_used = fl (needed requirement_params - left requirement_params);
          units_of_group_to_be_removed =
            of_int \<lceil>fl (amount_to_be_removed * item_to_group_multiplier)\<rceil>;
          restored = min units_of_group_to_be_removed units_used;
          params1 = requirement_params\<lparr>left := fl (left requirement_params + restored)\<rparr>
      in if item_to_group_multiplier = 0
         then (Inl (PyException ''ZeroDivisionError''), params1, amount_to_be_removed)
         else
         let amount_which_was_just_removed = fl (restored / item_to_group_multiplier);
             amount1 = fl (amount_to_be_removed
                           - min amount_which_was_just_removed amount_to_be_removed)
         in (Inr restored,
             if needed params1 = left params1 then params1\<lparr>used_type := None\<rparr> else params1,
             amount1))"

fun update_loop ::
  "catalogue \<Rightarrow> string \<Rightarrow> real \<Rightarrow> (string \<times> input_req) list \<Rightarrow> add_state
     \<Rightarrow> (exn + (string \<times> real) list) \<times> add_state" where
  "update_loop C item_type_name amount_to_be_removed [] S = (Inr [], S)"
| "update_loop C item_type_name amount_to_be_removed ((group_name, requirement_params) # later) S =
     (if used_type requirement_params = Some item_type_name
      then (case uncommit C item_type_name amount_to_be_removed group_name requirement_params of
              (Inl e, params1, _) \<Rightarrow> (Inl e, set_line group_name params1 S)
            | (Inr restored, params1, amount1) \<Rightarrow>
                (case update_loop C item_type_name amount1 later (set_line group_name params1 S) of
                   (Inl e, S') \<Rightarrow> (Inl e, S')
                 | (Inr entries, S') \<Rightarrow> (Inr ((group_name, restored) # entries), S')))
      else update_loop C item_type_name amount_to_be_removed later S)"

definition update_activity_requirements ::
  "catalogue \<Rightarrow> string \<Rightarrow> real \<Rightarrow> add_state \<Rightarrow> (exn + (string \<times> real) list) \<times> add_state" where
  "update_activity_requirements C item_type_name amount_to_be_removed S =
     update_loop C item_type_name amount_to_be_removed (sort_key fst (input_lines S)) S"

text \<open>
  Sequences of operations on one activity. An operation that ends with an exception
  leaves the state as it was (nothing is committed to the database). The ledger of a run
  has one entry per successful commit (the group and \<open>material_left_reduction\<close>) and one
  per line restored by decay (the group and the amount added to \<open>left\<close>).
\<close>

datatype operation = Commit add_action | Uncommit string real

datatype entry = Committed real | Restored real

definition exec :: "catalogue \<Rightarrow> operation \<Rightarrow> add_state \<Rightarrow> add_state \<times> (string \<times> entry) list" where
  "exec C operation S =
     (case operation of
        Commit A \<Rightarrow>
          (case AddEntityToActivityAction_perform C A S of
             (Inl e, _) \<Rightarrow> (S, [])
           | (Inr (group_name, amount_to_add, material_left_reduction), S') \<Rightarrow>
               (S', [(group_name, Committed material_left_reduction)]))
      | Uncommit item_type_name amount \<Rightarrow>
          (case update_activity_requirements C item_type_name amount S of
             (Inl e, _) \<Rightarrow> (S, [])
           | (Inr entries, S') \<Rightarrow> (S', map (\<lambda>(g, restored). (g, Restored restored)) entries)))"

fun run :: "catalogue \<Rightarrow> operation list \<Rightarrow> add_state \<Rightarrow> add_state \<times> (string \<times> entry) list" where
  "run C [] S = (S, [])"
| "run C (operation # later) S =
     (case exec C operation S of
        (S1, entries) \<Rightarrow> (case run C later S1 of (S2, entries') \<Rightarrow> (S2, entries @ entries')))"

text \<open>
  What the entries of a ledger amount to for one line, in the arithmetic of the code:
  a commit of \<open>c\<close> units takes \<open>left\<close> to \<open>max(0, left - c)\<close>, a restoration of \<open>r\<close> units
  takes it to \<open>left + r\<close>. \<open>replay\<close> applies the entries of one group in order.
\<close>

fun apply_entry :: "entry \<Rightarrow> real \<Rightarrow> real" where
  "apply_entry (Committed c) l = max 0 (fl (l - c))"
| "apply_entry (Restored r) l = fl (l + r)"

definition entries_of :: "(string \<times> entry) list \<Rightarrow> string \<Rightarrow> entry list" where
  "entries_of ledger group_name = map snd (filter (\<lambda>e. fst e = group_name) ledger)"

definition replay :: "(string \<times> entry) list \<Rightarrow> string \<Rightarrow> real \<Rightarrow> real" where
  "replay ledger group_name l = fold apply_entry (entries_of ledger group_name) l"

text \<open>
  The balance of a group in a ledger is what was committed to it minus what decay
  restored. The entries are \<open>undisturbed\<close> from a value of \<open>left\<close> when no commit is cut
  off at \<open>left = 0\<close> and no difference or sum is rounded.
\<close>

fun amount :: "entry \<Rightarrow> real" where
  "amount (Committed c) = c"
| "amount (Restored r) = - r"

definition balance :: "(string \<times> entry) list \<Rightarrow> string \<Rightarrow> real" where
  "balance ledger group_name = sum_list (map amount (entries_of ledger group_name))"

fun undisturbed :: "entry list \<Rightarrow> real \<Rightarrow> bool" where
  "undisturbed [] l = True"
| "undisturbed (Committed c # entries) l =
     (0 \<le> l - c \<and> fl (l - c) = l - c \<and> undisturbed entries (l - c))"
| "undisturbed (Restored r # entries) l =
     (fl (l + r) = l + r \<and> undisturbed entries (l + r))"

text \<open>
  For evaluation: the group \<open>wood\<close> contains the stackable type \<open>oak\<close> with efficiency
  \<open>2\<close>; character \<open>5\<close> holds a pile of \<open>4\<close> oak; activity \<open>7\<close> needs \<open>5\<close> wood.
\<close>

definition oak_catalogue :: catalogue where
  "oak_catalogue =
     \<lparr>stackable = (\<lambda>t. t = ''oak''), unit_weight = (\<lambda>_. 1),
      group_contains = (\<lambda>g t. g = ''wood'' \<and> t = ''oak''),
      quantity_efficiency = (\<lambda>g t. 2), quality_efficiency = (\<lambda>g t. Some 1),
      can_reach_item = True, can_reach_activity = True, slatize = (\<lambda>_. [])\<rparr>"

definition wood_line :: "real \<Rightarrow> string option \<Rightarrow> input_req" where
  "wood_line l t = \<lparr>needed = 5, left = l, used_type = t, quality = None\<rparr>"

definition oak_item :: "int \<Rightarrow> item" where
  "oak_item w = \<lparr>item_id = 10, type_name = ''oak'', weight = w, item_quality = 1,
      parent_entity = Some 5, role = ROLE_BEING_IN, visible_parts = []\<rparr>"

definition wood_state :: add_state where
  "wood_state =
     \<lparr>item_table = [oak_item 4], fresh_id = 11,
      act = new_activity (no_requirements\<lparr>input := Some [(''wood'', wood_line 5 None)]\<rparr>) 10\<rparr>"

definition add_oak :: "int \<Rightarrow> add_action" where
  "add_oak n = \<lparr>add_executor = 5, add_item = 10, add_activity = 7, add_amount = n\<rparr>"

text \<open>
  A second catalogue for evaluation: the group \<open>wood\<close> contains the stackable type \<open>pine\<close>
  with efficiency \<open>0.3\<close>; character \<open>5\<close> holds a pile of \<open>4\<close> pine; activity \<open>7\<close> needs
  \<open>0.9\<close> wood.
\<close>

definition pine_catalogue :: catalogue where
  "pine_catalogue =
     \<lparr>stackable = (\<lambda>t. t = ''pine''), unit_weight = (\<lambda>_. 1),
      group_contains = (\<lambda>g t. g = ''wood'' \<and> t = ''pine''),
      quantity_efficiency = (\<lambda>g t. fl (3 / 10)), quality_efficiency = (\<lambda>g t. Some 1),
      can_reach_item = True, can_reach_activity = True, slatize = (\<lambda>_. [])\<rparr>"

definition pine_line :: "real \<Rightarrow> string option \<Rightarrow> input_req" where
  "pine_line l t = \<lparr>needed = fl (9 / 10), left = l, used_type = t, quality = None\<rparr>"

definition pine_item :: "int \<Rightarrow> item" where
  "pine_item w = \<lparr>item_id = 10, type_name = ''pine'', weight = w, item_quality = 1,
      parent_entity = Some 5, role = ROLE_BEING_IN, visible_parts = []\<rparr>"

definition pine_state :: add_state where
  "pine_state =
     \<lparr>item_table = [pine_item 4], fresh_id = 11,
      act = new_activity
              (no_requirements\<lparr>input := Some [(''wood'', pine_line (fl (9 / 10)) None)]\<rparr>) 10\<rparr>"

definition add_pine :: "int \<Rightarrow> add_action" where
  "add_pine n = \<lparr>add_executor = 5, add_item = 10, add_activity = 7, add_amount = n\<rparr>"

text \<open>
  The \<open>needed\<close> and the \<open>left\<close> of the line of a group, if there is one, and the consumed
  amount \<open>needed - left\<close>.
\<close>

definition needed_of :: "(string \<times> input_req) list \<Rightarrow> string \<Rightarrow> real option" where
  "needed_of lines name = map_option needed (map_of lines name)"

definition left_of :: "(string \<times> input_req) list \<Rightarrow> string \<Rightarrow> real option" where
  "left_of lines name = map_option left (map_of lines name)"

definition consumed :: "(string \<times> input_req) list \<Rightarrow> string \<Rightarrow> real" where
  "consumed lines name = (case map_of lines name of None \<Rightarrow> 0 | Some p \<Rightarrow> needed p - left p)"

text \<open>What a successful commit does to the requirement lines, and the effect of a run.\<close>

definition committed_to ::
  "(string \<times> input_req) list \<Rightarrow> string \<Rightarrow> input_req \<Rightarrow> real \<Rightarrow> (string \<times> input_req) list \<Rightarrow> bool" where
  "committed_to lines g params reduction lines1 \<longleftrightarrow>
     (\<exists>p'. lines1 = dict_set lines g p' \<and> needed p' = needed params
           \<and> left p' = max 0 (fl (left params - reduction)))"

definition lines_effect ::
  "(string \<times> input_req) list \<Rightarrow> (string \<times> input_req) list \<Rightarrow> (string \<times> entry) list \<Rightarrow> bool" where
  "lines_effect lines lines1 ledger \<longleftrightarrow>
     map fst lines1 = map fst lines
     \<and> (\<forall>name. needed_of lines1 name = needed_of lines name)
     \<and> (\<forall>name. left_of lines1 name = map_option (replay ledger name) (left_of lines name))"

section \<open>Hits in combat (\<open>FightInCombatAction\<close>)\<close>

text \<open>
  The damage of a hit is a product and a quotient of floats; they are computed with
  the rounding of doubles (\<open>fl\<close>).
\<close>

definition STANCE_OFFENSIVE :: string where
  "STANCE_OFFENSIVE = ''stance_offensive''"

definition STANCE_DEFENSIVE :: string where
  "STANCE_DEFENSIVE = ''stance_defensive''"

definition STANCE_RETREAT :: string where
  "STANCE_RETREAT = ''stance_retreat''"

text \<open>\<open>calculate_hit_damage\<close>: the stance of the attacker and the stance of the target.\<close>

definition calculate_hit_damage :: "string \<Rightarrow> string \<Rightarrow> real" where
  "calculate_hit_damage stance target_stance =
     (let hit_damage = fl (1 / 10);
          hit_damage = (if stance = STANCE_OFFENSIVE then fl (hit_damage * fl (3 / 2))
                        else hit_damage);
          hit_damage = (if target_stance = STANCE_DEFENSIVE then fl (hit_damage / fl 2)
                        else hit_damage)
      in hit_damage)"

text \<open>
  The state that \<open>execute_hit\<close> changes: the \<open>damage\<close> of every entity and the
  \<open>recorded_violence\<close> of the combat, a dictionary whose keys are \<open>str(fighter.id)\<close>,
  here the identifiers themselves. The event is not modelled.

  \<open>damaged_foe.damage += hit_damage\<close> assigns \<open>states[main.States.DAMAGE]\<close>
  (\<open>Entity.damage\<close>, \<open>models.py\<close>), and the assignment runs the listeners of the
  dictionary (\<open>NestedMutableDict.changed_event\<close>), the first of which is
  \<open>models.clamp_to_0_1\<close>: a state in \<open>main.NORMALIZED_STATES\<close> whose value is below \<open>0\<close> or
  above \<open>1\<close> is replaced by \<open>util.clamp_0_1\<close> of it. Neither \<open>NORMALIZED_STATES\<close> nor
  \<open>util.clamp_0_1\<close> is part of the sources at hand, so both are parameters
  (\<open>state_rules\<close>): whether \<open>States.DAMAGE\<close> is among the normalized states, and the
  function \<open>clamp_0_1\<close>. The second listener only calls the hook \<open>DAMAGE_EXCEEDED\<close>;
  hooks are not modelled.
\<close>

record state_rules =
  damage_normalized :: bool
  clamp_0_1 :: "real \<Rightarrow> real"

definition clamp_to_0_1 :: "state_rules \<Rightarrow> real \<Rightarrow> real" where
  "clamp_to_0_1 rules v =
     (if damage_normalized rules then (if v < 0 \<or> 1 < v then clamp_0_1 rules v else v) else v)"

record fight =
  damage :: "entity_id \<Rightarrow> real"
  recorded_violence :: "(entity_id \<times> real) list"

definition get_recorded_damage :: "fight \<Rightarrow> entity_id \<Rightarrow> real" where
  "get_recorded_damage S fighter =
     (case map_of (recorded_violence S) fighter of None \<Rightarrow> 0 | Some v \<Rightarrow> v)"

definition set_damage :: "state_rules \<Rightarrow> entity_id \<Rightarrow> real \<Rightarrow> fight \<Rightarrow> fight" where
  "set_damage rules entity new_value S =
     S\<lparr>damage := (damage S)(entity := clamp_to_0_1 rules new_value)\<rparr>"

definition execute_hit ::
  "state_rules \<Rightarrow> string \<Rightarrow> string \<Rightarrow> entity_id \<Rightarrow> fight \<Rightarrow> fight" where
  "execute_hit rules stance target_stance damaged_foe S =
     (let hit_damage = calculate_hit_damage stance target_stance;
          S1 = set_damage rules damaged_foe (fl (damage S damaged_foe + hit_damage)) S
      in S1\<lparr>recorded_violence :=
               dict_set (recorded_violence S1) damaged_foe
                 (fl (get_recorded_damage S1 damaged_foe + hit_damage))\<rparr>)"

text \<open>
  For evaluation: \<open>States.DAMAGE\<close> is a normalized state and \<open>clamp_0_1\<close> cuts a value
  off at \<open>0\<close> and \<open>1\<close>; the target \<open>3\<close> is fully damaged and has no recorded damage yet.
\<close>

definition normalized_damage :: state_rules where
  "normalized_damage = \<lparr>damage_normalized = True, clamp_0_1 = (\<lambda>v. min 1 (max 0 v))\<rparr>"

definition fully_damaged :: fight where
  "fully_damaged = \<lparr>damage = (\<lambda>_. 1), recorded_violence = []\<rparr>"

section \<open>Theorems\<close>

subsection \<open>Floats\<close>

text \<open>
  The rounding is the one intended: \<open>ilog2 x\<close> is the binade of \<open>x\<close>, and \<open>fl x\<close> is an
  integer multiple of \<open>2\<close> to the power \<open>ilog2 x - 52\<close> at most half such a unit away
  from \<open>x\<close>.
\<close>

lemma bits_bounds: "0 < n \<Longrightarrow> (2::nat) ^ (bits n - 1) \<le> n \<and> n < 2 ^ bits n"
proof (induction n rule: bits.induct)
  case (1 n)
  show ?case
  proof (cases "n div 2 = 0")
    case True
    with 1 have "n = 1" by (simp add: div_eq_0_iff) 
    then show ?thesis by (simp add: bits.simps)
  next
    case False
    then have pos: "0 < n div 2" by simp
    from 1 have n0: "n \<noteq> 0" by simp
    from "1.IH"[OF n0 pos] have ih: "(2::nat) ^ (bits (n div 2) - 1) \<le> n div 2"
      "n div 2 < 2 ^ bits (n div 2)"
      by simp_all
    have b: "bits n = Suc (bits (n div 2))" using n0 by (simp add: bits.simps)
    have bp: "0 < bits (n div 2)" using False by (simp add: bits.simps)
    then have "(2::nat) ^ (bits n - 1) = 2 * 2 ^ (bits (n div 2) - 1)"
      unfolding b by (cases "bits (n div 2)") simp_all
    moreover have "2 * (n div 2) \<le> n" by simp
    ultimately have lo: "(2::nat) ^ (bits n - 1) \<le> n" using ih(1) by linarith
    have "n < 2 * (n div 2) + 2" by presburger
    moreover have "2 * (n div 2) + 2 \<le> 2 * 2 ^ bits (n div 2)" using ih(2) by simp
    ultimately have "n < 2 ^ bits n" unfolding b by simp
    with lo show ?thesis by simp
  qed
qed

lemma bits_bounds_real:
  assumes "0 < n"
  shows "(2::real) ^ (bits n - 1) \<le> real n" and "real n + 1 \<le> 2 ^ bits n"
proof -
  from bits_bounds[OF assms] have b: "(2::nat) ^ (bits n - 1) \<le> n" "Suc n \<le> 2 ^ bits n"
    by simp_all
  from b(1) have "real ((2::nat) ^ (bits n - 1)) \<le> real n" by (rule of_nat_mono)
  then show "(2::real) ^ (bits n - 1) \<le> real n" by simp
  from b(2) have "real (Suc n) \<le> real ((2::nat) ^ bits n)" by (rule of_nat_mono)
  then show "real n + 1 \<le> 2 ^ bits n" by simp
qed

lemma pow2_nat: "pow2 (int k) = 2 ^ k"
  by (simp add: pow2_def)

lemma pow2_neg: "pow2 (- int k) = 1 / 2 ^ k"
  by (cases k) (simp_all add: pow2_def nat_add_distrib)

lemma ilog2_bounds:
  assumes "0 < x"
  shows "pow2 (ilog2 x) \<le> x \<and> x < pow2 (ilog2 x + 1)"
proof (cases "1 \<le> x")
  case True
  let ?n = "nat \<lfloor>x\<rfloor>"
  have n: "0 < ?n" using True by simp
  note b = bits_bounds_real[OF n]
  have bp: "0 < bits ?n" using n by (simp add: bits.simps)
  have il: "ilog2 x = int (bits ?n - 1)" using True bp by (simp add: ilog2_def)
  have fl: "real ?n \<le> x" "x < real ?n + 1" using True by (simp_all add: of_nat_nat)
  have lo: "pow2 (ilog2 x) \<le> x" unfolding il pow2_nat using b(1) fl(1) by linarith
  have "int (bits ?n - 1) + 1 = int (bits ?n)" using bp by simp
  then have "pow2 (ilog2 x + 1) = 2 ^ bits ?n" unfolding il by (simp only: pow2_nat)
  then have "x < pow2 (ilog2 x + 1)" using b(2) fl(2) by linarith
  with lo show ?thesis by simp
next
  case False
  then have x1: "x < 1" by simp
  let ?y = "1 / x"
  have y1: "1 < ?y" using assms x1 by simp
  let ?m = "nat (\<lceil>?y\<rceil> - 1)"
  have c2: "2 \<le> \<lceil>?y\<rceil>" using y1 by (simp add: le_ceiling_iff)
  then have m: "0 < ?m" by simp
  have k0: "0 \<le> \<lceil>?y\<rceil> - 1" using c2 by linarith
  have rm: "real ?m = of_int \<lceil>?y\<rceil> - 1"
    using of_nat_nat[OF k0, where ?'a = real] by simp
  have cc: "of_int \<lceil>?y\<rceil> - 1 < ?y" "?y \<le> of_int \<lceil>?y\<rceil>"
    using ceiling_correct[of ?y] by simp_all
  have my: "real ?m < ?y" unfolding rm using cc(1) .
  have ym: "?y \<le> real ?m + 1" unfolding rm using cc(2) by simp
  note b = bits_bounds_real[OF m]
  have bp: "0 < bits ?m" using m by (simp add: bits.simps)
  have il: "ilog2 x = - int (bits ?m)" using False by (simp add: ilog2_def)
  from ym b(2) have "?y \<le> 2 ^ bits ?m" by linarith
  then have "1 / 2 ^ bits ?m \<le> x" using assms by (simp add: field_simps)
  then have lo: "pow2 (ilog2 x) \<le> x" unfolding il pow2_neg .
  from my b(1) have "2 ^ (bits ?m - 1) < ?y" by linarith
  then have up: "x < 1 / 2 ^ (bits ?m - 1)" using assms by (simp add: field_simps)
  have "- int (bits ?m) + 1 = - int (bits ?m - 1)" using bp by simp
  then have "pow2 (ilog2 x + 1) = 1 / 2 ^ (bits ?m - 1)" unfolding il by (simp only: pow2_neg)
  with up have "x < pow2 (ilog2 x + 1)" by simp
  with lo show ?thesis by simp
qed


lemma pow2_pos: "0 < pow2 e"
  by (simp add: pow2_def)

lemma round_half_even_nearest: "\<bar>of_int (round_half_even y) - y\<bar> \<le> 1 / 2"
proof -
  have "of_int \<lfloor>y\<rfloor> \<le> y" "y < of_int \<lfloor>y\<rfloor> + 1" by linarith+
  then show ?thesis
    by (auto simp: round_half_even_def Let_def)
qed

lemma fl_nearest:
  assumes "0 < x"
  shows "\<bar>fl x - x\<bar> \<le> pow2 (ilog2 x - 52) / 2
         \<and> fl x = of_int (round_half_even (x / pow2 (ilog2 x - 52))) * pow2 (ilog2 x - 52)"
proof -
  let ?e = "ilog2 x - 52"
  let ?k = "round_half_even (x / pow2 ?e)"
  have f: "fl x = of_int ?k * pow2 ?e" using assms by (simp add: fl_def Let_def)
  have p: "0 < pow2 ?e" by (rule pow2_pos)
  have "fl x - x = (of_int ?k - x / pow2 ?e) * pow2 ?e"
    unfolding f using p by (simp add: field_simps)
  then have "\<bar>fl x - x\<bar> = \<bar>of_int ?k - x / pow2 ?e\<bar> * pow2 ?e"
    using p by (simp add: abs_mult)
  also have "\<dots> \<le> 1 / 2 * pow2 ?e"
    using round_half_even_nearest[of "x / pow2 ?e"] p by (intro mult_right_mono) simp_all
  finally show ?thesis using f by simp
qed

lemma fl_tenth: "fl (1 / 10) = 3602879701896397 / 2 ^ 55"
  by (simp add: fl_def ilog2_def bits.simps pow2_def round_half_even_def Let_def)

lemma fl_three_halves: "fl (3 / 2) = 3 / 2"
  by (simp add: fl_def ilog2_def bits.simps pow2_def round_half_even_def Let_def)

lemma fl_two: "fl 2 = 2"
  by (simp add: fl_def ilog2_def bits.simps pow2_def round_half_even_def Let_def)

lemma fl_offensive: "fl (3602879701896397 / 2 ^ 55 * (3 / 2)) = 5404319552844596 / 2 ^ 55"
  by (simp add: fl_def ilog2_def bits.simps pow2_def round_half_even_def Let_def)

lemma fl_half_offensive: "fl (5404319552844596 / 2 ^ 55 / 2) = 5404319552844596 / 2 ^ 56"
  by (simp add: fl_def ilog2_def bits.simps pow2_def round_half_even_def Let_def)

lemma fl_half_tenth: "fl (3602879701896397 / 2 ^ 55 / 2) = 3602879701896397 / 2 ^ 56"
  by (simp add: fl_def ilog2_def bits.simps pow2_def round_half_even_def Let_def)

lemma fl_fifteen_hundredths: "fl (15 / 100) = 5404319552844595 / 2 ^ 55"
  by (simp add: fl_def ilog2_def bits.simps pow2_def round_half_even_def Let_def)

text \<open>The doubles that the evaluations below meet.\<close>

lemma fl_zero: "fl 0 = 0"
  by (simp add: fl_def)

lemma fl_one: "fl 1 = 1"
  by (simp add: fl_def ilog2_def bits.simps pow2_def round_half_even_def Let_def)

lemma fl_three: "fl 3 = 3"
  by (simp add: fl_def ilog2_def bits.simps pow2_def round_half_even_def Let_def)

lemma fl_four: "fl 4 = 4"
  by (simp add: fl_def ilog2_def bits.simps pow2_def round_half_even_def Let_def)

lemma fl_five: "fl 5 = 5"
  by (simp add: fl_def ilog2_def bits.simps pow2_def round_half_even_def Let_def)

lemma fl_six: "fl 6 = 6"
  by (simp add: fl_def ilog2_def bits.simps pow2_def round_half_even_def Let_def)

lemma fl_minus_one: "fl (- 1) = - 1"
  by (simp add: fl_def ilog2_def bits.simps pow2_def round_half_even_def Let_def)

lemma fl_five_halves: "fl (5 / 2) = 5 / 2"
  by (simp add: fl_def ilog2_def bits.simps pow2_def round_half_even_def Let_def)

lemma fl_nine_tenths: "fl (9 / 10) = 8106479329266893 / 2 ^ 53"
  by (simp add: fl_def ilog2_def bits.simps pow2_def round_half_even_def Let_def)

lemma fl_three_tenths: "fl (3 / 10) = 5404319552844595 / 2 ^ 54"
  by (simp add: fl_def ilog2_def bits.simps pow2_def round_half_even_def Let_def)

lemma fl_nine_by_three_tenths:
  "fl (8106479329266893 / 2 ^ 53 / (5404319552844595 / 2 ^ 54)) = 3"
  by (simp add: fl_def ilog2_def bits.simps pow2_def round_half_even_def Let_def)

lemma fl_three_times_three_tenths:
  "fl (3 * (5404319552844595 / 2 ^ 54)) = 8106479329266892 / 2 ^ 53"
  by (simp add: fl_def ilog2_def bits.simps pow2_def round_half_even_def Let_def)

lemma fl_nine_tenths_less:
  "fl (8106479329266893 / 2 ^ 53 - 8106479329266892 / 2 ^ 53) = 1 / 2 ^ 53"
  by (simp add: fl_def ilog2_def bits.simps pow2_def round_half_even_def Let_def)

lemma fl_tenths_not_zero: "fl (3 / 10) \<noteq> 0" "fl (9 / 10) \<noteq> 0"
  unfolding fl_nine_tenths fl_three_tenths by simp_all

lemma fl_quotient_of_tenths: "fl (fl (9 / 10) / fl (3 / 10)) = 3"
  unfolding fl_nine_tenths fl_three_tenths by (rule fl_nine_by_three_tenths)

lemma fl_product_of_tenths: "fl (3 * fl (3 / 10)) = 8106479329266892 / 2 ^ 53"
  unfolding fl_three_tenths by (rule fl_three_times_three_tenths)

lemma fl_difference_of_tenths: "fl (fl (9 / 10) - fl (3 * fl (3 / 10))) = 1 / 2 ^ 53"
  unfolding fl_product_of_tenths unfolding fl_nine_tenths by (rule fl_nine_tenths_less)

lemma fl_one_plus_offensive: "fl (1 + 5404319552844596 / 2 ^ 55) = 5179139571476070 / 2 ^ 52"
  by (simp add: fl_def ilog2_def bits.simps pow2_def round_half_even_def Let_def)

subsection \<open>Notifications\<close>

lemma bump_first_length: "length (bump_first now p ns) = length ns"
  by (induction ns) auto

text \<open>
  C7. Reporting the same failure (same tag, same parameters, same recipient) twice, starting
  from a notification table with no matching row, adds exactly one row to the table, and
  that row has \<open>count = 2\<close>: the second report increments the count of the row the first
  one created and refreshes its date.
\<close>

theorem C7_report_twice_one_record:
  assumes "\<not> list_ex (matches_failure tag params worker) ns"
  shows "report_failure_notification now2 tag params worker
           (report_failure_notification now1 tag params worker ns)
         = ns @ [(Notification now1 tag params tag params (Some worker) None)
                   \<lparr>count := 2, game_date := now2\<rparr>]"
proof -
  let ?n = "Notification now1 tag params tag params (Some worker) None"
  have m: "matches_failure tag params worker ?n"
    by (simp add: matches_failure_def Notification_def)
  have first: "report_failure_notification now1 tag params worker ns = ns @ [?n]"
    using assms by (simp add: report_failure_notification_def)
  have bump: "bump_first now2 (matches_failure tag params worker) (ns @ [?n])
              = ns @ [?n\<lparr>count := count ?n + 1, game_date := now2\<rparr>]"
    using assms m by (induction ns) auto
  have "count ?n + 1 = 2" by (simp add: Notification_def)
  with first bump m show ?thesis
    by (simp add: report_failure_notification_def)
qed

theorem C7_report_twice_one_record_witness:
  "report_failure_notification 20 ''error_no_tool_for_activity'' [(''tool_name'', PStr ''axe'')] 7
     (report_failure_notification 10 ''error_no_tool_for_activity'' [(''tool_name'', PStr ''axe'')] 7 [])
   = [\<lparr>title_tag = ''error_no_tool_for_activity'', title_params = [(''tool_name'', PStr ''axe'')],
       text_tag = ''error_no_tool_for_activity'', text_params = [(''tool_name'', PStr ''axe'')],
       count = 2, character = Some 7, player = None, game_date = 20\<rparr>]"
  using C7_report_twice_one_record [where ns = "[]" and tag = "''error_no_tool_for_activity''"
      and params = "[(''tool_name'', PStr ''axe'')]" and worker = 7 and ?now2.0 = 20
      and ?now1.0 = 10]
  by (simp add: Notification_def)

subsection \<open>The progress engine\<close>

lemma check_mandatory_tools_error:
  "check_mandatory_tools W w ts acc = Inl e \<Longrightarrow> \<exists>t. e = NoToolForActivityException t \<and> t \<in> set ts \<and> tools_of W w t = []"
  by (induction ts arbitrary: acc) (auto split: list.splits)

lemma check_skills_error:
  "check_skills W w ss = Inl e \<Longrightarrow> \<exists>s l. e = TooLowSkillException s l \<and> (s, l) \<in> set ss \<and> get_skill_factor W w s < l"
  by (induction ss) (auto split: if_splits)

lemma map_sum_Inl_iff: "map_sum id f x = Inl e \<longleftrightarrow> x = Inl e"
  by (cases x) auto

lemma check_worker_error:
  assumes "check_worker W a w = Inl e"
  shows "(\<not> has_access W w \<and> e = TooFarFromActivityException (name_tag a) (name_params a))
       \<or> (\<exists>ts t. mandatory_tools (reqs a) = Some ts \<and> t \<in> set ts \<and> tools_of W w t = [] \<and> e = NoToolForActivityException t)
       \<or> (\<exists>ss s l. skills (reqs a) = Some ss \<and> (s, l) \<in> set ss \<and> get_skill_factor W w s < l \<and> e = TooLowSkillException s l)"
  using assms
  unfolding check_worker_def check_worker_proximity_def on_key_def
  by (auto split: if_splits sum.splits option.splits simp: Let_def map_sum_Inl_iff
      dest!: check_mandatory_tools_error check_skills_error)

lemma check_worker_game: "check_worker W a w = Inl e \<Longrightarrow> is_GameException e"
  by (drule check_worker_error) auto

lemma worker_step_fails:
  "check_worker W a w = Inl e \<Longrightarrow>
   worker_step W now a w s =
     Inr (s\<lparr>notifications := report_failure_notification now (error_tag e) (error_kwargs e) w (notifications s)\<rparr>)"
  by (simp add: worker_step_def check_worker_game)

lemma workers_loop_append:
  "workers_loop W now a (xs @ ys) s =
     (case workers_loop W now a xs s of Inl e \<Rightarrow> Inl e | Inr s' \<Rightarrow> workers_loop W now a ys s')"
  by (induction xs arbitrary: s) (auto split: sum.splits)

lemma bump_first_filter_keep:
  "(\<And>n. p n \<Longrightarrow> character n = Some v) \<Longrightarrow> 
   filter (\<lambda>n. character n = Some v) (bump_first now p ns) = bump_first now p (filter (\<lambda>n. character n = Some v) ns)"
  by (induction ns) auto

lemma bump_first_filter_drop:
  "(\<And>n. p n \<Longrightarrow> \<not> Q (character n)) \<Longrightarrow> 
   filter (\<lambda>n. Q (character n)) (bump_first now p ns) = filter (\<lambda>n. Q (character n)) ns"
  by (induction ns) auto

lemma bump_first_filter_commute:
  "(\<And>n. p n \<Longrightarrow> Q (character n)) \<Longrightarrow> 
   filter (\<lambda>n. Q (character n)) (bump_first now p ns) = bump_first now p (filter (\<lambda>n. Q (character n)) ns)"
  by (induction ns) auto

lemma list_ex_filter_commute:
  "(\<And>n. p n \<Longrightarrow> Q n) \<Longrightarrow> list_ex p (filter Q ns) = list_ex p ns"
  by (induction ns) auto

lemma report_rows_of_same:
  "rows_of w (report_failure_notification now tag kw w ns) = report_failure_notification now tag kw w (rows_of w ns)"
  unfolding rows_of_def report_failure_notification_def
  using bump_first_filter_commute[of "matches_failure tag kw w" "\<lambda>c. c = Some w" now ns]
    list_ex_filter_commute[of "matches_failure tag kw w" "\<lambda>n. character n = Some w" ns]
  by (auto simp: matches_failure_def Notification_def)

lemma report_rows_of_other:
  "v \<noteq> w \<Longrightarrow> rows_of w (report_failure_notification now tag kw v ns) = rows_of w ns"
  unfolding rows_of_def report_failure_notification_def
  using bump_first_filter_drop[of "matches_failure tag kw v" "\<lambda>c. c = Some w" now ns]
  by (auto simp: matches_failure_def Notification_def)

lemma report_rows_not_same:
  "rows_not w (report_failure_notification now tag kw w ns) = rows_not w ns"
  unfolding rows_not_def report_failure_notification_def
  using bump_first_filter_drop[of "matches_failure tag kw w" "\<lambda>c. c \<noteq> Some w" now ns]
  by (auto simp: matches_failure_def Notification_def)

lemma report_rows_not_other:
  "v \<noteq> w \<Longrightarrow> rows_not w (report_failure_notification now tag kw v ns) = report_failure_notification now tag kw v (rows_not w ns)"
  unfolding rows_not_def report_failure_notification_def
  using bump_first_filter_commute[of "matches_failure tag kw v" "\<lambda>c. c \<noteq> Some w" now ns]
    list_ex_filter_commute[of "matches_failure tag kw v" "\<lambda>n. character n \<noteq> Some w" ns]
  by (auto simp: matches_failure_def Notification_def)

lemma worker_step_other:
  assumes "v \<noteq> w" "same_but_rows w s t"
  shows "\<exists>s' t'. worker_step W now a v s = Inr s' \<and> worker_step W now a v t = Inr t'
     \<and> same_but_rows w s' t' 
     \<and> rows_of w (notifications s') = rows_of w (notifications s)
     \<and> rows_of w (notifications t') = rows_of w (notifications t)
     \<and> set (active_workers s') \<subseteq> insert v (set (active_workers s))"
proof (cases "check_worker W a v")
  case (Inl e)
  then show ?thesis using assms
    by (auto simp: worker_step_fails same_but_rows_def report_rows_not_other report_rows_of_other)
next
  case (Inr r)
  then show ?thesis using assms
    by (cases r) (auto simp: worker_step_def same_but_rows_def split: option.splits)
qed

lemma workers_loop_others:
  assumes "w \<notin> set vs" "same_but_rows w s t"
  shows "\<exists>s' t'. workers_loop W now a vs s = Inr s' \<and> workers_loop W now a vs t = Inr t'
     \<and> same_but_rows w s' t' 
     \<and> rows_of w (notifications s') = rows_of w (notifications s)
     \<and> rows_of w (notifications t') = rows_of w (notifications t)
     \<and> set (active_workers s') \<subseteq> set vs \<union> set (active_workers s)"
  using assms
proof (induction vs arbitrary: s t)
  case Nil
  then show ?case by simp
next
  case (Cons v vs)
  then have "v \<noteq> w" by auto
  from worker_step_other[OF this Cons.prems(2), of W now a]
  obtain s1 t1 where st: "worker_step W now a v s = Inr s1" "worker_step W now a v t = Inr t1"
     "same_but_rows w s1 t1" "rows_of w (notifications s1) = rows_of w (notifications s)"
     "rows_of w (notifications t1) = rows_of w (notifications t)"
     "set (active_workers s1) \<subseteq> insert v (set (active_workers s))" by blast
  from Cons.prems have "w \<notin> set vs" by simp
  from Cons.IH[OF this st(3)] obtain s' t' where
    "workers_loop W now a vs s1 = Inr s'" "workers_loop W now a vs t1 = Inr t'"
    "same_but_rows w s' t'" "rows_of w (notifications s') = rows_of w (notifications s1)"
    "rows_of w (notifications t') = rows_of w (notifications t1)"
    "set (active_workers s') \<subseteq> set vs \<union> set (active_workers s1)" by blast
  with st show ?case by auto
qed


lemma same_but_rows_refl: "same_but_rows w s s"
  by (simp add: same_but_rows_def)

lemma workers_loop_skip:
  assumes fails: "check_worker W a w = Inl e"
    and once: "w \<notin> set ws1" "w \<notin> set ws2"
    and start: "active_workers s0 = []"
  shows "\<exists>s t. workers_loop W now a (ws1 @ w # ws2) s0 = Inr s
            \<and> workers_loop W now a (ws1 @ ws2) s0 = Inr t
            \<and> same_but_rows w s t
            \<and> w \<notin> set (active_workers s)
            \<and> rows_of w (notifications s) =
                report_failure_notification now (error_tag e) (error_kwargs e) w
                  (rows_of w (notifications s0))
            \<and> rows_of w (notifications t) = rows_of w (notifications s0)"
proof -
  from workers_loop_others[OF once(1) same_but_rows_refl, of W now a s0]
  obtain s1 where s1: "workers_loop W now a ws1 s0 = Inr s1"
    "rows_of w (notifications s1) = rows_of w (notifications s0)"
    "set (active_workers s1) \<subseteq> set ws1 \<union> set (active_workers s0)" by auto
  let ?s1' = "s1\<lparr>notifications := report_failure_notification now (error_tag e) (error_kwargs e)
                   w (notifications s1)\<rparr>"
  have step: "worker_step W now a w s1 = Inr ?s1'"
    by (rule worker_step_fails[OF fails])
  have rel: "same_but_rows w ?s1' s1"
    by (simp add: same_but_rows_def report_rows_not_same)
  from workers_loop_others[OF once(2) rel, of W now a]
  obtain s t where st: "workers_loop W now a ws2 ?s1' = Inr s" "workers_loop W now a ws2 s1 = Inr t"
    "same_but_rows w s t" "rows_of w (notifications s) = rows_of w (notifications ?s1')"
    "rows_of w (notifications t) = rows_of w (notifications s1)"
    "set (active_workers s) \<subseteq> set ws2 \<union> set (active_workers ?s1')" by blast
  have "workers_loop W now a (ws1 @ w # ws2) s0 = Inr s"
    using s1(1) step st(1) by (simp add: workers_loop_append)
  moreover have "workers_loop W now a (ws1 @ ws2) s0 = Inr t"
    using s1(1) st(2) by (simp add: workers_loop_append)
  moreover have "w \<notin> set (active_workers s)"
    using st(6) s1(3) once start by auto
  moreover have "rows_of w (notifications s) =
       report_failure_notification now (error_tag e) (error_kwargs e) w (rows_of w (notifications s0))"
    using st(4) s1(2) by (simp add: report_rows_of_same)
  moreover have "rows_of w (notifications t) = rows_of w (notifications s0)"
    using st(5) s1(2) by simp
  ultimately show ?thesis using st(3) by blast
qed

text \<open>
  C6. In one run of \<open>ActivityProgressProcess.perform_action\<close> whose shared checks pass, a
  worker \<open>w\<close> (occurring once in the worker list) who fails a per-worker check is not in
  the active worker set; the active set, the progress ratio and the tool quality samples,
  hence the outcome and the activity (\<open>ticks_left\<close>, quality), are those of the run
  without \<open>w\<close>; the notification rows of all other recipients are those of the run without
  \<open>w\<close>; and the rows of \<open>w\<close> are changed by exactly one \<open>report_failure_notification\<close>
  carrying the tag and parameters of the failed check, which is the proximity check
  (\<open>TooFarFromActivityException\<close>), a mandatory tool (\<open>NoToolForActivityException\<close>) or a
  skill (\<open>TooLowSkillException\<close>).
\<close>

theorem C6_failing_worker_excluded:
  assumes shared: "shared_checks W (reqs a) = Inr (progress, machine_quality)"
    and fails: "check_worker W a w = Inl e"
    and once: "w \<notin> set ws1 \<and> w \<notin> set ws2"
  shows "(\<exists>s t. workers_loop W now a (ws1 @ w # ws2) (start_state progress ns) = Inr s
            \<and> workers_loop W now a (ws1 @ ws2) (start_state progress ns) = Inr t
            \<and> w \<notin> set (active_workers s)
            \<and> active_workers s = active_workers t
            \<and> progress_ratio s = progress_ratio t
            \<and> tool_based_quality s = tool_based_quality t)
       \<and> fst (perform_action W now a (ws1 @ w # ws2) ns) = fst (perform_action W now a (ws1 @ ws2) ns)
       \<and> fst (snd (perform_action W now a (ws1 @ w # ws2) ns))
           = fst (snd (perform_action W now a (ws1 @ ws2) ns))
       \<and> rows_not w (snd (snd (perform_action W now a (ws1 @ w # ws2) ns)))
           = rows_not w (snd (snd (perform_action W now a (ws1 @ ws2) ns)))
       \<and> rows_of w (snd (snd (perform_action W now a (ws1 @ w # ws2) ns)))
           = report_failure_notification now (error_tag e) (error_kwargs e) w (rows_of w ns)
       \<and> rows_of w (snd (snd (perform_action W now a (ws1 @ ws2) ns))) = rows_of w ns
       \<and> (e = TooFarFromActivityException (name_tag a) (name_params a)
            \<or> (\<exists>tool. e = NoToolForActivityException tool)
            \<or> (\<exists>skill level. e = TooLowSkillException skill level))"
proof -
  have start: "active_workers (start_state progress ns) = []"
    and ns0: "notifications (start_state progress ns) = ns"
    by (simp_all add: start_state_def)
  from once have o1: "w \<notin> set ws1" and o2: "w \<notin> set ws2" by simp_all
  from workers_loop_skip[OF fails o1 o2 start, of now]
  obtain s t where st:
    "workers_loop W now a (ws1 @ w # ws2) (start_state progress ns) = Inr s"
    "workers_loop W now a (ws1 @ ws2) (start_state progress ns) = Inr t"
    "same_but_rows w s t" "w \<notin> set (active_workers s)"
    "rows_of w (notifications s) =
       report_failure_notification now (error_tag e) (error_kwargs e) w (rows_of w ns)"
    "rows_of w (notifications t) = rows_of w ns"
    unfolding ns0 by blast
  from st(3) have eqs: "tool_based_quality s = tool_based_quality t"
    "progress_ratio s = progress_ratio t" "active_workers s = active_workers t"
    "rows_not w (notifications s) = rows_not w (notifications t)"
    by (simp_all add: same_but_rows_def)
  have both_runs: "\<exists>s t. workers_loop W now a (ws1 @ w # ws2) (start_state progress ns) = Inr s
            \<and> workers_loop W now a (ws1 @ ws2) (start_state progress ns) = Inr t
            \<and> w \<notin> set (active_workers s)
            \<and> active_workers s = active_workers t
            \<and> progress_ratio s = progress_ratio t
            \<and> tool_based_quality s = tool_based_quality t"
    using st(1,2,4) eqs(1,2,3) by blast
  have pa: "perform_action W now a (ws1 @ w # ws2) ns =
      (case check_workers_bounds (reqs a) (active_workers s) of
        Inl e \<Rightarrow> (Inl e, a, notifications s)
      | Inr _ \<Rightarrow>
     (let a' = accrue (tool_based_quality s)
                 (case machine_quality of None \<Rightarrow> [] | Some qs \<Rightarrow> qs) (progress_ratio s) a
      in (Inr (ticks_left a' \<le> 0), a', notifications s)))"
    using shared st(1) by (simp add: perform_action_def)
  have pb: "perform_action W now a (ws1 @ ws2) ns =
      (case check_workers_bounds (reqs a) (active_workers t) of
        Inl e \<Rightarrow> (Inl e, a, notifications t)
      | Inr _ \<Rightarrow>
     (let a' = accrue (tool_based_quality t)
                 (case machine_quality of None \<Rightarrow> [] | Some qs \<Rightarrow> qs) (progress_ratio t) a
      in (Inr (ticks_left a' \<le> 0), a', notifications t)))"
    using shared st(2) by (simp add: perform_action_def)
  have r1: "fst (perform_action W now a (ws1 @ w # ws2) ns) = fst (perform_action W now a (ws1 @ ws2) ns)"
    unfolding pa pb eqs(1,2,3) by (simp add: Let_def split: sum.splits)
  have r2: "fst (snd (perform_action W now a (ws1 @ w # ws2) ns))
           = fst (snd (perform_action W now a (ws1 @ ws2) ns))"
    unfolding pa pb eqs(1,2,3) by (simp add: Let_def split: sum.splits)
  have n1: "snd (snd (perform_action W now a (ws1 @ w # ws2) ns)) = notifications s"
    unfolding pa by (simp add: Let_def split: sum.splits)
  have n2: "snd (snd (perform_action W now a (ws1 @ ws2) ns)) = notifications t"
    unfolding pb by (simp add: Let_def split: sum.splits)
  have kind: "e = TooFarFromActivityException (name_tag a) (name_params a)
            \<or> (\<exists>tool. e = NoToolForActivityException tool)
            \<or> (\<exists>skill level. e = TooLowSkillException skill level)"
    using check_worker_error[OF fails] by blast
  show ?thesis
    using both_runs r1 r2 kind unfolding n1 n2 using eqs(4) st(5,6) by simp
qed

text \<open>
  The scenario of the specification: the activity requires the mandatory tool \<open>axe\<close>,
  worker \<open>1\<close> holds one and worker \<open>2\<close> does not.
\<close>

theorem C6_failing_worker_excluded_witness:
  "shared_checks axe_world (reqs axe_activity) = Inr (None, None)
   \<and> check_worker axe_world axe_activity 2 = Inl (NoToolForActivityException ''axe'')
   \<and> (2 \<notin> set [1::nat] \<and> 2 \<notin> set ([]::nat list))
   \<and> fst (snd (perform_action axe_world 0 axe_activity [1, 2] []))
       = fst (snd (perform_action axe_world 0 axe_activity [1] []))
   \<and> rows_of 2 (snd (snd (perform_action axe_world 0 axe_activity [1, 2] [])))
       = [Notification 0 ''error_no_tool_for_activity'' [(''tool_name'', PStr ''axe'')]
            ''error_no_tool_for_activity'' [(''tool_name'', PStr ''axe'')] (Some 2) None]"
proof -
  have e1: "shared_checks axe_world (reqs axe_activity) = Inr (None, None)"
    by (simp add: shared_checks_def axe_activity_def new_activity_def no_requirements_def
        on_key_def)
  have e2: "check_worker axe_world axe_activity 2 = Inl (NoToolForActivityException ''axe'')"
    by (simp add: check_worker_def check_worker_proximity_def axe_activity_def new_activity_def
        no_requirements_def on_key_def axe_world_def)
  have e3: "2 \<notin> set [1::nat] \<and> 2 \<notin> set ([]::nat list)" by simp
  show ?thesis
    using C6_failing_worker_excluded [OF e1 e2 e3, of 0 "[]"] e1 e2
    by (simp add: rows_of_def report_failure_notification_def)
qed

text \<open>
  C1. The two bound checks are guarded by each other's key: with only \<open>min_workers\<close> in
  the requirement map and fewer active workers than the bound, the lookup
  \<open>req["max_workers"]\<close> raises \<open>KeyError\<close>; no \<open>TooFewParticipantsException\<close> is raised.
  Here the bound is \<open>2\<close> and worker \<open>1\<close> is the only one.
\<close>

theorem C1_min_workers_alone_raises_KeyError:
  "perform_action axe_world 0 (new_activity (no_requirements\<lparr>min_workers := Some 2\<rparr>) 10) [1] []
   = (Inl (PyException ''KeyError''),
      new_activity (no_requirements\<lparr>min_workers := Some 2\<rparr>) 10, [])"
  by (simp add: perform_action_def shared_checks_def no_requirements_def on_key_def
      new_activity_def start_state_def worker_step_def check_worker_def
      check_worker_proximity_def axe_world_def check_workers_bounds_def subscript_def)

subsection \<open>Decay\<close>

text \<open>
  C4. The increment of \<open>ticks_left\<close> is \<open>min(DEFAULT_PROGRESS, ticks_needed)\<close>; the sum is
  not capped: an activity with \<open>ticks_needed = 10\<close> and \<open>ticks_left = 8\<close> has
  \<open>ticks_left = 13\<close> after one run of the decay process.
\<close>

theorem C4_decay_exceeds_ticks_needed:
  "map ticks_left
     (decay_progress_of_activities [(new_activity no_requirements 10)\<lparr>ticks_left := 8\<rparr>]) = [13]
   \<and> map ticks_needed
     (decay_progress_of_activities [(new_activity no_requirements 10)\<lparr>ticks_left := 8\<rparr>]) = [10]"
  by (simp add: decay_progress_of_activities_def decay_progress_def new_activity_def
      DEFAULT_PROGRESS_def)

subsection \<open>The continuation registry\<close>

lemma list_ex_keys: "list_ex (\<lambda>(k, v). P k) kw = list_ex P (map fst kw)"
  by (induction kw) auto

lemma bind_arguments_keys:
  "map fst kw = map fst kw' \<Longrightarrow> bind_arguments c kw = bind_arguments c kw'"
proof -
  assume k: "map fst kw = map fst kw'"
  then have "fst ` set kw = fst ` set kw'" by (metis set_map)
  then have "\<And>p. (map_of kw p = None) = (map_of kw' p = None)"
    by (simp add: map_of_eq_None_iff)
  with k show ?thesis
    by (simp add: bind_arguments_def list_ex_keys)
qed

lemma sequence_keys:
  "sequence (map f kw) = Inr conv \<Longrightarrow> \<forall>k v r. f (k, v) = Inr r \<longrightarrow> fst r = k
     \<Longrightarrow> map fst conv = map fst kw"
proof (induction kw arbitrary: conv)
  case Nil then show ?case by simp
next
  case (Cons a kw)
  obtain k v where a: "a = (k, v)" by (cases a)
  show ?case
  proof (cases "f (k, v)")
    case (Inl e) with Cons.prems(1) a show ?thesis by simp
  next
    case (Inr r)
    with Cons.prems(1) a obtain rest where rest: "sequence (map f kw) = Inr rest" "conv = r # rest"
      by (auto split: sum.splits)
    from Cons.IH[OF rest(1) Cons.prems(2)] have "map fst rest = map fst kw" .
    moreover from Cons.prems(2) Inr have "fst r = k" by blast
    ultimately show ?thesis using rest a by simp
  qed
qed

text \<open>
  C9 (as amended). Materializing a record \<open>[type_id, args]\<close> with injected arguments:
  \<^item> if \<open>type_id\<close> has no module part, \<open>ValueError\<close> is raised; if its module cannot be
    imported, \<open>ImportError\<close>; if the module has no attribute of that name,
    \<open>AttributeError\<close>;
  \<^item> if the name reaches an object that cannot be called, \<open>TypeError\<close> is raised; if it
    reaches a callable that is not a class, the result is whatever that callable does
    with the merged arguments, which need not be a failure;
  \<^item> if it reaches a class and the stored arguments merged with the injected ones have
    a key that is no parameter (and there is no \<open>**kwargs\<close>) or lack a required
    parameter, materializing fails, with \<open>TypeError\<close> when the constructor has no
    \<open>@convert\<close> decorator (with one, an exception of the conversion of a nested record
    can come first).
  No dedicated error type is involved.
\<close>

theorem C9_materialize_failures:
  "(module_of type_id = [] \<longrightarrow>
      call R (PyList (PyStr type_id # PyDict args # later)) injected
        = Inl (PyException ''ValueError''))
   \<and> (module_of type_id \<noteq> [] \<and> \<not> module_exists R (module_of type_id) \<longrightarrow>
      call R (PyList (PyStr type_id # PyDict args # later)) injected
        = Inl (PyException ''ImportError''))
   \<and> (module_of type_id \<noteq> [] \<and> module_exists R (module_of type_id)
        \<and> attribute R type_id = None \<longrightarrow>
      call R (PyList (PyStr type_id # PyDict args # later)) injected
        = Inl (PyException ''AttributeError''))
   \<and> (module_of type_id \<noteq> [] \<and> module_exists R (module_of type_id)
        \<and> attribute R type_id = Some OtherObject \<longrightarrow>
      call R (PyList (PyStr type_id # PyDict args # later)) injected
        = Inl (PyException ''TypeError''))
   \<and> (module_of type_id \<noteq> [] \<and> module_exists R (module_of type_id)
        \<and> attribute R type_id = Some (FunctionObject f) \<longrightarrow>
      call R (PyList (PyStr type_id # PyDict args # later)) injected
        = f (dict_update args injected))
   \<and> (module_of type_id \<noteq> [] \<and> module_exists R (module_of type_id)
        \<and> attribute R type_id = Some (ClassObject cls)
        \<and> ((\<not> varkw cls
              \<and> list_ex (\<lambda>(k, v). \<not> List.member (parameters cls) k) (dict_update args injected))
             \<or> list_ex (\<lambda>p. map_of (dict_update args injected) p = None) (required cls)) \<longrightarrow>
      (\<exists>e. call R (PyList (PyStr type_id # PyDict args # later)) injected = Inl e)
      \<and> (argument_types cls = None \<longrightarrow>
           call R (PyList (PyStr type_id # PyDict args # later)) injected
             = Inl (PyException ''TypeError'')))"
proof (intro conjI impI)
  assume "module_of type_id = []"
  then show "call R (PyList (PyStr type_id # PyDict args # later)) injected
        = Inl (PyException ''ValueError'')"
    by (simp add: call.simps record_parts_def object_import_def)
next
  assume "module_of type_id \<noteq> [] \<and> \<not> module_exists R (module_of type_id)"
  then show "call R (PyList (PyStr type_id # PyDict args # later)) injected
        = Inl (PyException ''ImportError'')"
    by (simp add: call.simps record_parts_def object_import_def)
next
  assume "module_of type_id \<noteq> [] \<and> module_exists R (module_of type_id)
        \<and> attribute R type_id = None"
  then show "call R (PyList (PyStr type_id # PyDict args # later)) injected
        = Inl (PyException ''AttributeError'')"
    by (simp add: call.simps record_parts_def object_import_def)
next
  assume "module_of type_id \<noteq> [] \<and> module_exists R (module_of type_id)
        \<and> attribute R type_id = Some OtherObject"
  then show "call R (PyList (PyStr type_id # PyDict args # later)) injected
        = Inl (PyException ''TypeError'')"
    by (simp add: call.simps record_parts_def object_import_def)
next
  assume "module_of type_id \<noteq> [] \<and> module_exists R (module_of type_id)
        \<and> attribute R type_id = Some (FunctionObject f)"
  then show "call R (PyList (PyStr type_id # PyDict args # later)) injected
        = f (dict_update args injected)"
    by (simp add: call.simps record_parts_def object_import_def)
next
  assume h: "module_of type_id \<noteq> [] \<and> module_exists R (module_of type_id)
        \<and> attribute R type_id = Some (ClassObject cls)
        \<and> ((\<not> varkw cls
              \<and> list_ex (\<lambda>(k, v). \<not> List.member (parameters cls) k) (dict_update args injected))
             \<or> list_ex (\<lambda>p. map_of (dict_update args injected) p = None) (required cls))"
  let ?kw = "dict_update args injected"
  from h have imp: "object_import R type_id = Inr (ClassObject cls)"
    by (simp add: object_import_def)
  from h have b: "bind_arguments cls ?kw = Inl (PyException ''TypeError'')"
    by (auto simp: bind_arguments_def)
  show "\<exists>e. call R (PyList (PyStr type_id # PyDict args # later)) injected = Inl e"
  proof (cases "argument_types cls")
    case None
    with imp b show ?thesis by (simp add: call.simps record_parts_def)
  next
    case (Some types)
    let ?f = "\<lambda>(arg_name, arg_value).
                        case conversion_of types arg_name arg_value of
                          ByQuery m \<Rightarrow> Inr (arg_name, query_get R m arg_value)
                        | ByCall \<Rightarrow> map_sum id (Pair arg_name) (call R arg_value [])
                        | AsIs \<Rightarrow> Inr (arg_name, arg_value)"
    show ?thesis
    proof (cases "sequence (map ?f ?kw)")
      case (Inl e')
      with imp Some show ?thesis by (simp add: call.simps record_parts_def)
    next
      case (Inr conv)
      have "\<forall>k v r. ?f (k, v) = Inr r \<longrightarrow> fst r = k"
        by (auto split: conversion.splits sum.splits simp: map_sum_def)
      from sequence_keys[OF Inr this] have "map fst conv = map fst ?kw" .
      then have "bind_arguments cls conv = Inl (PyException ''TypeError'')"
        using b bind_arguments_keys by metis
      with imp Some Inr show ?thesis by (simp add: call.simps record_parts_def)
    qed
  qed
next
  assume h: "module_of type_id \<noteq> [] \<and> module_exists R (module_of type_id)
        \<and> attribute R type_id = Some (ClassObject cls)
        \<and> ((\<not> varkw cls
              \<and> list_ex (\<lambda>(k, v). \<not> List.member (parameters cls) k) (dict_update args injected))
             \<or> list_ex (\<lambda>p. map_of (dict_update args injected) p = None) (required cls))"
    and n: "argument_types cls = None"
  from h have imp: "object_import R type_id = Inr (ClassObject cls)"
    by (simp add: object_import_def)
  from h have b: "bind_arguments cls (dict_update args injected) = Inl (PyException ''TypeError'')"
    by (auto simp: bind_arguments_def)
  with imp n show "call R (PyList (PyStr type_id # PyDict args # later)) injected
             = Inl (PyException ''TypeError'')"
    by (simp add: call.simps record_parts_def)
qed

theorem C9_materialize_failures_witness:
  "call actions_registry (PyList [PyStr ''JoinActivityAction'', PyDict []]) []
     = Inl (PyException ''ValueError'')
   \<and> call actions_registry
         (PyList [PyStr ''exeris.core.nothing.NoSuchAction'', PyDict []]) []
       = Inl (PyException ''ImportError'')
   \<and> call actions_registry
         (PyList [PyStr ''exeris.core.actions.NoSuchAction'', PyDict []]) []
       = Inl (PyException ''AttributeError'')
   \<and> call actions_registry (PyList [PyStr ''exeris.core.actions.logger'', PyDict []]) []
       = Inl (PyException ''TypeError'')
   \<and> call actions_registry
         (PyList [PyStr ''exeris.core.actions.form_on_setup'', PyDict []]) []
       = Inr (Instance ''builtins.function'' [])
   \<and> call actions_registry
         (PyList [PyStr ''exeris.core.actions.JoinActivityAction'',
                  PyDict [(''executor'', PyInt 5)]]) []
       = Inl (PyException ''TypeError'')"
proof -
  have m0: "module_of ''JoinActivityAction'' = []"
    by (simp add: module_of_def)
  have m1: "module_of ''exeris.core.nothing.NoSuchAction'' = ''exeris.core.nothing''"
    by (simp add: module_of_def)
  have m2: "module_of ''exeris.core.actions.NoSuchAction'' = ''exeris.core.actions''"
    by (simp add: module_of_def)
  have m3: "module_of ''exeris.core.actions.logger'' = ''exeris.core.actions''"
    by (simp add: module_of_def)
  have m4: "module_of ''exeris.core.actions.form_on_setup'' = ''exeris.core.actions''"
    by (simp add: module_of_def)
  have m5: "module_of ''exeris.core.actions.JoinActivityAction'' = ''exeris.core.actions''"
    by (simp add: module_of_def)
  have c0: "call actions_registry (PyList [PyStr ''JoinActivityAction'', PyDict []]) []
              = Inl (PyException ''ValueError'')"
    using C9_materialize_failures [where R = actions_registry
        and type_id = "''JoinActivityAction''" and args = "[]" and later = "[]"
        and injected = "[]"] m0
    by simp
  have c1: "call actions_registry
              (PyList [PyStr ''exeris.core.nothing.NoSuchAction'', PyDict []]) []
              = Inl (PyException ''ImportError'')"
    using C9_materialize_failures [where R = actions_registry
        and type_id = "''exeris.core.nothing.NoSuchAction''" and args = "[]" and later = "[]"
        and injected = "[]"] m1
    by (simp add: actions_registry_def)
  have c2: "call actions_registry
              (PyList [PyStr ''exeris.core.actions.NoSuchAction'', PyDict []]) []
              = Inl (PyException ''AttributeError'')"
    using C9_materialize_failures [where R = actions_registry
        and type_id = "''exeris.core.actions.NoSuchAction''" and args = "[]" and later = "[]"
        and injected = "[]"] m2
    by (simp add: actions_registry_def)
  have c3: "call actions_registry (PyList [PyStr ''exeris.core.actions.logger'', PyDict []]) []
              = Inl (PyException ''TypeError'')"
    using C9_materialize_failures [where R = actions_registry
        and type_id = "''exeris.core.actions.logger''" and args = "[]" and later = "[]"
        and injected = "[]"] m3
    by (simp add: actions_registry_def)
  have c4: "call actions_registry
              (PyList [PyStr ''exeris.core.actions.form_on_setup'', PyDict []]) []
              = Inr (Instance ''builtins.function'' [])"
    using C9_materialize_failures [where R = actions_registry
        and type_id = "''exeris.core.actions.form_on_setup''" and args = "[]" and later = "[]"
        and injected = "[]"
        and f = "\<lambda>kwargs. Inr (Instance ''builtins.function'' [])"] m4
    by (simp add: actions_registry_def)
  have c5: "call actions_registry
              (PyList [PyStr ''exeris.core.actions.JoinActivityAction'',
                       PyDict [(''executor'', PyInt 5)]]) []
              = Inl (PyException ''TypeError'')"
    using C9_materialize_failures [where R = actions_registry
        and type_id = "''exeris.core.actions.JoinActivityAction''"
        and args = "[(''executor'', PyInt 5)]" and later = "[]" and injected = "[]"
        and cls = JoinActivityAction] m5
    by (simp add: actions_registry_def JoinActivityAction_def dict_update_def)
  from c0 c1 c2 c3 c4 c5 show ?thesis by simp
qed

text \<open>
  The claim as stated fails: for a \<open>type_id\<close> that names no class of an existing module
  the exception is \<open>AttributeError\<close>, and for stored arguments that lack the required
  parameter \<open>activity\<close> it is \<open>TypeError\<close>; neither is a \<open>MalformedRecordError\<close>.
\<close>

theorem C9_no_MalformedRecordError:
  "call actions_registry
     (PyList [PyStr ''exeris.core.actions.NoSuchAction'', PyDict []]) []
     = Inl (PyException ''AttributeError'')
   \<and> call actions_registry
         (PyList [PyStr ''exeris.core.actions.JoinActivityAction'',
                  PyDict [(''executor'', PyInt 5)]]) []
       = Inl (PyException ''TypeError'')
   \<and> PyException ''AttributeError'' \<noteq> PyException ''MalformedRecordError''
   \<and> PyException ''TypeError'' \<noteq> PyException ''MalformedRecordError''"
  by (simp add: call.simps record_parts_def object_import_def module_of_def
      actions_registry_def dict_update_def bind_arguments_def JoinActivityAction_def)

text \<open>
  C3. The round trip does not reproduce the arguments of \<open>JoinActivityAction\<close>, whose
  constructor has no \<open>@convert\<close> decorator: \<open>serialize\<close> replaces the character and the
  activity by their identifiers and \<open>call\<close> passes the identifiers to the constructor as
  they are, so the materialized action holds the integers \<open>5\<close> and \<open>7\<close> where the
  original held the entities. For \<open>WorkOnActivityAction\<close>, which is decorated, the same
  stored arguments are converted back to the entities.
\<close>

theorem C3_round_trip_loses_entities:
  "serialize actions_registry
     (Instance ''exeris.core.actions.JoinActivityAction''
        [(''executor'', Entity ''Character'' 5), (''entity'', Entity ''Activity'' 7),
         (''rng'', same_range), (''activity'', Entity ''Activity'' 7)])
     = Inr (PyList [PyStr ''exeris.core.actions.JoinActivityAction'',
                    PyDict [(''executor'', PyInt 5), (''activity'', PyInt 7)]])
   \<and> call actions_registry
         (PyList [PyStr ''exeris.core.actions.JoinActivityAction'',
                  PyDict [(''executor'', PyInt 5), (''activity'', PyInt 7)]]) []
       = Inr (Instance ''exeris.core.actions.JoinActivityAction''
                [(''executor'', PyInt 5), (''entity'', PyInt 7), (''rng'', same_range),
                 (''activity'', PyInt 7)])
   \<and> call actions_registry
         (PyList [PyStr ''exeris.core.actions.WorkOnActivityAction'',
                  PyDict [(''executor'', PyInt 5), (''activity'', PyInt 7)]]) []
       = Inr (Instance ''exeris.core.actions.WorkOnActivityAction''
                [(''executor'', Entity ''Character'' 5), (''activity'', Entity ''Activity'' 7)])"
  by (simp add: serialize.simps call.simps record_parts_def object_import_def module_of_def
      classes_def actions_registry_def dict_update_def bind_arguments_def conversion_of_def
      JoinActivityAction_def WorkOnActivityAction_def)

subsection \<open>The tick scheduler\<close>

lemma work_loop_append:
  "work_loop E (xs @ ys) st =
     (case work_loop E xs st of (Inl e, st') \<Rightarrow> (Inl e, st') | (Inr _, st') \<Rightarrow> work_loop E ys st')"
  by (induction xs arbitrary: st) (auto split: prod.splits sum.splits)

text \<open>
  C2. Let \<open>work_intent\<close> be a due \<open>WORK\<close> intent whose action is not a
  \<open>WorkOnActivityAction\<close>, let \<open>db\<close> be the session when the scheduler reaches it, and let
  \<open>perform\<close> raise \<open>e\<close>. If \<open>e\<close> is in the retry family, the session after the intent is
  \<open>db\<close>: what the action did is rolled back, the intent is still there, no notification is
  added. Otherwise, if \<open>e\<close> is a \<open>GameException\<close>, the session is \<open>db\<close> with one
  \<open>report_failure_notification\<close> of the tag and parameters of \<open>e\<close> to the executor.
  Otherwise \<open>e\<close> leaves \<open>WorkProcess.perform_action\<close>: no later intent and no activity
  group is processed.
\<close>

theorem C2_failure_classification:
  assumes due: "work_intents db0 = earlier @ work_intent # later"
    and before: "work_loop E earlier (db0, []) = (Inr (), db, groups)"
    and materialized: "call (classes_known E) (serialized_action work_intent) [] = Inr action"
    and not_activity: "\<not> is_WorkOnActivityAction action"
    and raises: "perform E action db = (Inl e, db')"
  shows "(turning_into_intent E e \<longrightarrow>
            work_loop E (earlier @ [work_intent]) (db0, []) = (Inr (), db, groups))
       \<and> (\<not> turning_into_intent E e \<and> is_GameException e \<longrightarrow>
            work_loop E (earlier @ [work_intent]) (db0, [])
              = (Inr (),
                 db\<lparr>notification_table :=
                      report_failure_notification (game_now E) (error_tag e) (error_kwargs e)
                        (executor work_intent) (notification_table db)\<rparr>,
                 groups))
       \<and> (\<not> turning_into_intent E e \<and> \<not> is_GameException e \<longrightarrow>
            WorkProcess_perform_action E db0 = (Inl e, db'))"
proof -
  have step: "work_step E work_intent (db, groups) =
      (case run_intent E work_intent action db of (r, d) \<Rightarrow> (r, d, groups))"
    using materialized not_activity by (simp add: work_step_def)
  have one: "work_loop E (earlier @ [work_intent]) (db0, []) =
      (case work_step E work_intent (db, groups) of
         (Inl e, st') \<Rightarrow> (Inl e, st') | (Inr _, st') \<Rightarrow> (Inr (), st'))"
    using before by (simp add: work_loop_append split: prod.splits sum.splits)
  have all: "work_loop E (earlier @ work_intent # later) (db0, []) =
      (case work_step E work_intent (db, groups) of
         (Inl e, st') \<Rightarrow> (Inl e, st') | (Inr _, st') \<Rightarrow> work_loop E later st')"
    using before by (simp add: work_loop_append)
  show ?thesis
  proof (intro conjI impI)
    assume "turning_into_intent E e"
    then show "work_loop E (earlier @ [work_intent]) (db0, []) = (Inr (), db, groups)"
      using raises by (simp add: one step run_intent_def)
  next
    assume "\<not> turning_into_intent E e \<and> is_GameException e"
    then show "work_loop E (earlier @ [work_intent]) (db0, [])
              = (Inr (),
                 db\<lparr>notification_table :=
                      report_failure_notification (game_now E) (error_tag e) (error_kwargs e)
                        (executor work_intent) (notification_table db)\<rparr>,
                 groups)"
      using raises by (simp add: one step run_intent_def)
  next
    assume "\<not> turning_into_intent E e \<and> \<not> is_GameException e"
    then have "work_loop E (earlier @ work_intent # later) (db0, []) = (Inl e, db', groups)"
      using raises by (simp add: all step run_intent_def)
    then show "WorkProcess_perform_action E db0 = (Inl e, db')"
      using due by (simp add: WorkProcess_perform_action_def)
  qed
qed

theorem C2_failure_classification_witness:
  "work_loop (failing_env (GameExceptionSubclass ''NotYetArrived'' ''retry'' []))
     [join_intent] (one_intent_session, [])
     = (Inr (), one_intent_session, [])
   \<and> work_loop (failing_env (InvalidAmountException 3)) [join_intent] (one_intent_session, [])
       = (Inr (),
          one_intent_session\<lparr>notification_table :=
            [Notification 0 ''error_invalid_amount'' [(''amount'', PInt 3)]
               ''error_invalid_amount'' [(''amount'', PInt 3)] (Some 5) None]\<rparr>,
          [])
   \<and> WorkProcess_perform_action (failing_env (PyException ''KeyError'')) one_intent_session
       = (Inl (PyException ''KeyError''), one_intent_session\<lparr>intents := []\<rparr>)"
proof -
  have w1: "work_intents one_intent_session = [] @ join_intent # []"
    by (simp add: work_intents_def one_intent_session_def join_intent_def)
  have w2: "work_loop (failing_env e) [] (one_intent_session, [])
              = (Inr (), one_intent_session, [])" for e
    by simp
  have w3: "call (classes_known (failing_env e)) (serialized_action join_intent) []
              = Inr joined" for e
    by (simp add: failing_env_def join_intent_def joined_def call.simps record_parts_def
        object_import_def module_of_def actions_registry_def dict_update_def
        bind_arguments_def JoinActivityAction_def)
  have w4: "\<not> is_WorkOnActivityAction joined"
    by (simp add: is_WorkOnActivityAction_def joined_def)
  have w5: "perform (failing_env e) joined one_intent_session
              = (Inl e, one_intent_session\<lparr>intents := []\<rparr>)" for e
    by (simp add: failing_env_def)
  show ?thesis
    using C2_failure_classification [OF w1 w2 w3 w4 w5,
        of "GameExceptionSubclass ''NotYetArrived'' ''retry'' []"]
      C2_failure_classification [OF w1 w2 w3 w4 w5, of "InvalidAmountException 3"]
      C2_failure_classification [OF w1 w2 w3 w4 w5, of "PyException ''KeyError''"]
    by (simp add: failing_env_def report_failure_notification_def one_intent_session_def
        join_intent_def)
qed

subsection \<open>Committing and un-committing materials\<close>

lemma move_raises: "move_entity_between_entities C it src dst n S = (Inl e, S') \<Longrightarrow> S' = S"
  by (auto simp: move_entity_between_entities_def split: if_splits)

lemma commit_raises_game:
  "commit C A it name params S = (Inl e, S') \<Longrightarrow> is_GameException e \<Longrightarrow> S' = S"
  by (auto simp: commit_def Let_def split: if_splits prod.splits sum.splits option.splits
      dest: move_raises)

lemma add_loop_raises_game:
  "add_loop C A it lines S = (Inl e, S') \<Longrightarrow> is_GameException e \<Longrightarrow> S' = S"
  by (induction lines) (auto split: if_splits option.splits dest: commit_raises_game)

text \<open>
  C10. When \<open>AddEntityToActivityAction.perform_action\<close> is left by a \<open>GameException\<close>,
  the state (the item table and the activity with its requirement map) is the one it
  was called in: the checks that raise one come before the first mutation.
\<close>

theorem C10_game_exception_leaves_state:
  assumes "AddEntityToActivityAction_perform C A S = (Inl e, S')" and "is_GameException e"
  shows "S' = S"
  using assms
  by (auto simp: AddEntityToActivityAction_perform_def split: option.splits if_splits sum.splits
      dest: add_loop_raises_game)

theorem C10_game_exception_leaves_state_witness:
  "AddEntityToActivityAction_perform oak_catalogue (add_oak 9) wood_state
     = (Inl (InvalidAmountException 9), wood_state)
   \<and> is_GameException (InvalidAmountException 9)"
proof -
  have r: "AddEntityToActivityAction_perform oak_catalogue (add_oak 9) wood_state
             = (Inl (InvalidAmountException 9),
                snd (AddEntityToActivityAction_perform oak_catalogue (add_oak 9) wood_state))"
    by (simp add: AddEntityToActivityAction_perform_def oak_catalogue_def add_oak_def
        wood_state_def oak_item_def item_amount_def trunc_def fl_four)
  have g: "is_GameException (InvalidAmountException 9)" by simp
  show ?thesis using C10_game_exception_leaves_state [OF r g] r g by simp
qed

lemma map_of_dict_set: "map_of (dict_set d k v) = (map_of d)(k \<mapsto> v)"
  by (induction d) (auto simp: fun_eq_iff)

lemma keys_dict_set: "k \<in> fst ` set d \<Longrightarrow> map fst (dict_set d k v) = map fst d"
proof (induction d)
  case Nil then show ?case by simp
next
  case (Cons a d)
  show ?case
  proof (cases "fst a = k")
    case True then show ?thesis by (cases a) simp
  next
    case False
    with Cons.prems have "k \<in> fst ` set d" by auto
    with Cons.IH False show ?thesis by (cases a) simp
  qed
qed

lemma set_dict_set: "x \<in> set (dict_set d k v) \<Longrightarrow> x = (k, v) \<or> x \<in> set d"
  by (induction d) (auto split: if_splits)

lemma dict_set_twice: "dict_set (dict_set d k v) k v' = dict_set d k v'"
  by (induction d) auto

lemma input_lines_set_line [simp]:
  "input_lines (set_line name p S) = dict_set (input_lines S) name p"
  by (simp add: set_line_def input_lines_def)

lemma input_lines_move:
  "move_entity_between_entities C it src dst n S = (r, S1) \<Longrightarrow> input_lines S1 = input_lines S"
  by (auto simp: move_entity_between_entities_def move_stackable_resource_def input_lines_def Let_def
      split: if_splits)

lemma commit_lines:
  assumes "commit C A it name params S = (Inr (g, n, reduction), S1)"
  shows "g = name \<and> committed_to (input_lines S) name params reduction (input_lines S1)"
proof -
  let ?ratio = "quantity_efficiency C name (type_name it)"
  let ?n = "min (add_amount A) \<lceil>fl (left params / ?ratio)\<rceil>"
  have nz: "?ratio \<noteq> 0"
    using assms by (auto simp: commit_def Let_def)
  obtain S0 where mv: "move_entity_between_entities C it (being_in it) (add_activity A) ?n S = (Inr (), S0)"
    using assms nz
    by (auto simp: commit_def Let_def split: prod.splits sum.splits if_splits)
  have l0: "input_lines S0 = input_lines S" by (rule input_lines_move[OF mv])
  show ?thesis
    using assms nz mv l0
    by (auto simp: commit_def Let_def committed_to_def dict_set_twice
        split: prod.splits sum.splits if_splits option.splits)
qed

lemma replay_Nil [simp]: "replay [] name = (\<lambda>l. l)"
  by (rule ext) (simp add: replay_def entries_of_def)

lemma replay_Cons [simp]:
  "replay ((g, e) # ledger) name
     = (\<lambda>l. replay ledger name (if g = name then apply_entry e l else l))"
  by (rule ext) (simp add: replay_def entries_of_def)

lemma replay_append [simp]: "replay (a @ b) name = (\<lambda>l. replay b name (replay a name l))"
  by (rule ext) (simp add: replay_def entries_of_def)

lemma undisturbed_fold:
  "undisturbed entries l \<Longrightarrow> fold apply_entry entries l = l - sum_list (map amount entries)"
proof (induction entries arbitrary: l)
  case Nil
  then show ?case by simp
next
  case (Cons e entries)
  show ?case
  proof (cases e)
    case (Committed c)
    with Cons.prems have u: "0 \<le> l - c" "fl (l - c) = l - c" "undisturbed entries (l - c)"
      by simp_all
    from Cons.IH[OF u(3)] u(1,2) show ?thesis by (simp add: Committed)
  next
    case (Restored r)
    with Cons.prems have u: "fl (l + r) = l + r" "undisturbed entries (l + r)"
      by simp_all
    from Cons.IH[OF u(2)] u(1) show ?thesis by (simp add: Restored)
  qed
qed

lemma lines_effect_refl: "lines_effect lines lines []"
  by (simp add: lines_effect_def option.map_ident)

lemma lines_effect_trans:
  "lines_effect l0 l1 e1 \<Longrightarrow> lines_effect l1 l2 e2 \<Longrightarrow> lines_effect l0 l2 (e1 @ e2)"
  unfolding lines_effect_def
  by (simp add: option.map_comp comp_def)

lemma lines_effect_distinct:
  "lines_effect l0 l1 e \<Longrightarrow> distinct (map fst l0) \<Longrightarrow> distinct (map fst l1)"
  by (simp add: lines_effect_def)

lemma replaced_effect:
  assumes d: "distinct (map fst lines)" and mem: "(g, p) \<in> set lines"
    and p': "needed p' = needed p" "left p' = apply_entry e (left p)"
  shows "lines_effect lines (dict_set lines g p') [(g, e)]"
proof -
  have key: "g \<in> fst ` set lines" using mem by force
  have m: "map_of lines g = Some p" using d mem by simp
  have "map fst (dict_set lines g p') = map fst lines" by (rule keys_dict_set[OF key])
  moreover have "\<forall>name. needed_of (dict_set lines g p') name = needed_of lines name"
    using m p'(1) by (simp add: needed_of_def map_of_dict_set)
  moreover have "\<forall>name. left_of (dict_set lines g p') name
                    = map_option (replay [(g, e)] name) (left_of lines name)"
    using m p'(2) by (simp add: left_of_def map_of_dict_set option.map_ident)
  ultimately show ?thesis by (simp add: lines_effect_def)
qed

lemma committed_effect:
  assumes "distinct (map fst lines)" "(g, p) \<in> set lines"
    and "committed_to lines g p reduction lines1"
  shows "lines_effect lines lines1 [(g, Committed reduction)]"
proof -
  from assms(3) obtain p' where p': "lines1 = dict_set lines g p'" "needed p' = needed p"
    "left p' = max 0 (fl (left p - reduction))" by (auto simp: committed_to_def)
  from p'(3) have "left p' = apply_entry (Committed reduction) (left p)" by simp
  from replaced_effect[OF assms(1,2) p'(2) this] show ?thesis unfolding p'(1) .
qed

lemma add_loop_lines:
  assumes "add_loop C A it todo S = (Inr (g, n, reduction), S1)"
  shows "\<exists>p. (g, p) \<in> set todo \<and> committed_to (input_lines S) g p reduction (input_lines S1)"
  using assms
proof (induction todo)
  case Nil then show ?case by simp
next
  case (Cons a todo)
  obtain name params where a: "a = (name, params)" by (cases a)
  consider (skip) "add_loop C A it todo S = (Inr (g, n, reduction), S1)"
    | (here) "commit C A it name params S = (Inr (g, n, reduction), S1)"
    using Cons.prems(1) a by (auto split: option.splits if_splits)
  then show ?case
  proof cases
    case skip
    from Cons.IH[OF skip] show ?thesis by auto
  next
    case here
    from commit_lines[OF here] show ?thesis using a by auto
  qed
qed

lemma perform_effect:
  assumes "AddEntityToActivityAction_perform C A S = (Inr (g, n, reduction), S1)"
    and "distinct (map fst (input_lines S))"
  shows "lines_effect (input_lines S) (input_lines S1) [(g, Committed reduction)]"
proof -
  from assms(1) obtain it where
    loop: "add_loop C A it (sort_key fst (input_lines S)) S = (Inr (g, n, reduction), S1)"
    by (auto simp: AddEntityToActivityAction_perform_def
        split: option.splits if_splits sum.splits)
  from add_loop_lines[OF loop]
  obtain p where p: "(g, p) \<in> set (input_lines S)"
    "committed_to (input_lines S) g p reduction (input_lines S1)" by auto
  show ?thesis by (rule committed_effect[OF assms(2) p])
qed

lemma uncommit_line:
  assumes "uncommit C t x name p = (Inr restored, p1, x1)"
  shows "needed p1 = needed p \<and> left p1 = fl (left p + restored)"
  using assms
  by (auto simp: uncommit_def Let_def split: if_splits)

lemma update_loop_effect:
  assumes "update_loop C t x todo S = (Inr entries, S1)"
    and "distinct (map fst (input_lines S))"
    and "distinct (map fst todo)" "\<forall>e \<in> set todo. map_of (input_lines S) (fst e) = Some (snd e)"
  shows "lines_effect (input_lines S) (input_lines S1)
           (map (\<lambda>(g, restored). (g, Restored restored)) entries)"
  using assms
proof (induction todo arbitrary: S x entries)
  case Nil
  then show ?case by (simp add: lines_effect_refl)
next
  case (Cons a todo)
  obtain name p where a: "a = (name, p)" by (cases a)
  have m: "map_of (input_lines S) name = Some p" using Cons.prems(4) a by simp
  then have mem: "(name, p) \<in> set (input_lines S)" by (rule map_of_SomeD)
  have d: "distinct (map fst todo)" "name \<notin> fst ` set todo" using Cons.prems(3) a by auto
  show ?case
  proof (cases "used_type p = Some t")
    case False
    then have "update_loop C t x todo S = (Inr entries, S1)" using Cons.prems(1) a by simp
    moreover have "\<forall>e \<in> set todo. map_of (input_lines S) (fst e) = Some (snd e)"
      using Cons.prems(4) by simp
    ultimately show ?thesis using Cons.IH Cons.prems(2) d(1) by blast
  next
    case True
    obtain r p1 x1 where u: "uncommit C t x name p = (r, p1, x1)" by (cases "uncommit C t x name p")
    from Cons.prems(1) a True u obtain restored entries' where
      r: "r = Inr restored" and
      loop: "update_loop C t x1 todo (set_line name p1 S) = (Inr entries', S1)" and
      e: "entries = (name, restored) # entries'"
      by (auto split: sum.splits prod.splits)
    from uncommit_line[OF u[unfolded r]]
    have f: "needed p1 = needed p" "left p1 = fl (left p + restored)" by simp_all
    from f(2) have "left p1 = apply_entry (Restored restored) (left p)" by simp
    from replaced_effect[OF Cons.prems(2) mem f(1) this]
    have first: "lines_effect (input_lines S) (input_lines (set_line name p1 S))
                   [(name, Restored restored)]"
      by simp
    have ok: "distinct (map fst (input_lines (set_line name p1 S)))"
      by (rule lines_effect_distinct[OF first Cons.prems(2)])
    have rest: "\<forall>e \<in> set todo. map_of (input_lines (set_line name p1 S)) (fst e) = Some (snd e)"
      using Cons.prems(4) d(2) by (auto simp: map_of_dict_set)
    from Cons.IH[OF loop ok d(1) rest]
    have "lines_effect (input_lines (set_line name p1 S)) (input_lines S1)
            (map (\<lambda>(g, restored). (g, Restored restored)) entries')" .
    from lines_effect_trans[OF first this] show ?thesis by (simp add: e)
  qed
qed

lemma update_effect:
  assumes "update_activity_requirements C t x S = (Inr entries, S1)"
    and "distinct (map fst (input_lines S))"
  shows "lines_effect (input_lines S) (input_lines S1)
           (map (\<lambda>(g, restored). (g, Restored restored)) entries)"
proof -
  have d: "distinct (map fst (sort_key fst (input_lines S)))"
    using assms(2) by (simp add: distinct_map)
  have "\<forall>e \<in> set (sort_key fst (input_lines S)). map_of (input_lines S) (fst e) = Some (snd e)"
    using assms(2) by auto
  from update_loop_effect[OF assms(1)[unfolded update_activity_requirements_def] assms(2) d this]
  show ?thesis .
qed

lemma exec_effect:
  assumes "exec C operation S = (S1, entries)" and "distinct (map fst (input_lines S))"
  shows "lines_effect (input_lines S) (input_lines S1) entries"
proof (cases operation)
  case (Commit A)
  show ?thesis
  proof (cases "AddEntityToActivityAction_perform C A S")
    case (Pair r S')
    show ?thesis
    proof (cases r)
      case (Inl e)
      then show ?thesis using assms(1) Commit Pair by (simp add: exec_def lines_effect_refl)
    next
      case (Inr receipt)
      obtain g n reduction where rc: "receipt = (g, n, reduction)" by (cases receipt)
      from perform_effect[OF Pair[unfolded Inr rc] assms(2)]
      show ?thesis using assms(1) Commit Pair Inr rc by (simp add: exec_def)
    qed
  qed
next
  case (Uncommit t x)
  show ?thesis
  proof (cases "update_activity_requirements C t x S")
    case (Pair r S')
    show ?thesis
    proof (cases r)
      case (Inl e)
      then show ?thesis using assms(1) Uncommit Pair by (simp add: exec_def lines_effect_refl)
    next
      case (Inr es)
      from update_effect[OF Pair[unfolded Inr] assms(2)]
      show ?thesis using assms(1) Uncommit Pair Inr by (simp add: exec_def)
    qed
  qed
qed

text \<open>
  The number of items that a commit takes is the ceiling of the rounded quotient: for
  \<open>left = 0.9\<close> and efficiency \<open>0.3\<close> the quotient of the doubles is above \<open>3\<close> and rounds
  to \<open>3.0\<close>, so \<open>3\<close> of the \<open>4\<close> offered items are taken; they are worth
  \<open>0.8999999999999999\<close>, and \<open>left\<close> becomes \<open>2^-53\<close>, not \<open>0\<close>.
\<close>

lemma commit_takes_ceiling_of_rounded_quotient:
  "AddEntityToActivityAction_perform pine_catalogue (add_pine 4) pine_state =
     (Inr (''wood'', 3, fl (3 * fl (3 / 10))),
      \<lparr>item_table = [pine_item 1, \<lparr>item_id = 11, type_name = ''pine'', weight = 3,
          item_quality = 1, parent_entity = Some 7, role = ROLE_USED_FOR,
          visible_parts = []\<rparr>], fresh_id = 12,
        act = new_activity
                (no_requirements
                   \<lparr>input := Some [(''wood'', pine_line (1 / 2 ^ 53) (Some ''pine''))]\<rparr>) 10\<rparr>)
   \<and> fl (3 * fl (3 / 10)) = 8106479329266892 / 2 ^ 53"
proof -
  have "AddEntityToActivityAction_perform pine_catalogue (add_pine 4) pine_state =
     (Inr (''wood'', 3, fl (3 * fl (3 / 10))),
      \<lparr>item_table = [pine_item 1, \<lparr>item_id = 11, type_name = ''pine'', weight = 3,
          item_quality = 1, parent_entity = Some 7, role = ROLE_USED_FOR,
          visible_parts = []\<rparr>], fresh_id = 12,
        act = new_activity
                (no_requirements
                   \<lparr>input := Some [(''wood'', pine_line (1 / 2 ^ 53) (Some ''pine''))]\<rparr>) 10\<rparr>)"
    by (simp add: AddEntityToActivityAction_perform_def pine_catalogue_def add_pine_def
        pine_state_def pine_item_def item_amount_def input_lines_def new_activity_def
        no_requirements_def pine_line_def commit_def Let_def move_entity_between_entities_def
        being_in_def move_stackable_resource_def same_pile_def set_line_def trunc_def
        fl_three fl_four fl_quotient_of_tenths fl_difference_of_tenths fl_tenths_not_zero)
  then show ?thesis using fl_product_of_tenths by simp
qed

text \<open>
  C5 (as amended). Over every sequence of commits and decay un-commits on an activity
  whose requirement lines have distinct names (as the keys of a dictionary do), the names
  of the lines and the \<open>needed\<close> of every line stay as they are, and the \<open>left\<close> of a line
  is exactly what the ledger of the run gives for it: starting from the \<open>left\<close> at the
  beginning, every commit of \<open>c\<close> units (its \<open>material_left_reduction\<close>) takes \<open>left\<close> to
  \<open>max(0, left - c)\<close> and every restoration by decay of \<open>r\<close> units takes it to \<open>left + r\<close>,
  in the order of the operations and with the rounding of doubles. When no commit to the
  line is cut off at \<open>left = 0\<close> and none of these differences and sums is rounded, the
  consumed amount \<open>needed - left\<close> is the one at the beginning plus what was committed to
  the line minus what decay restored.
\<close>

theorem C5_left_replays_ledger:
  assumes "distinct (map fst (input_lines S))" and "run C operations S = (S', ledger)"
  shows "map fst (input_lines S') = map fst (input_lines S)
       \<and> needed_of (input_lines S') name = needed_of (input_lines S) name
       \<and> left_of (input_lines S') name
           = map_option (replay ledger name) (left_of (input_lines S) name)
       \<and> (left_of (input_lines S) name = Some l \<and> undisturbed (entries_of ledger name) l \<longrightarrow>
            consumed (input_lines S') name
              = consumed (input_lines S) name + balance ledger name)"
proof -
  have "lines_effect (input_lines S) (input_lines S') ledger"
    using assms
  proof (induction operations arbitrary: S ledger)
    case Nil
    then show ?case by (simp add: lines_effect_refl)
  next
    case (Cons operation operations)
    obtain S1 e1 where x: "exec C operation S = (S1, e1)" by (cases "exec C operation S")
    obtain S2 e2 where r: "run C operations S1 = (S2, e2)" by (cases "run C operations S1")
    from Cons.prems(2) x r have eq: "S' = S2" "ledger = e1 @ e2" by simp_all
    from exec_effect[OF x Cons.prems(1)]
    have first: "lines_effect (input_lines S) (input_lines S1) e1" .
    have "distinct (map fst (input_lines S1))"
      by (rule lines_effect_distinct[OF first Cons.prems(1)])
    from Cons.IH[OF this r[folded eq(1)]]
    have "lines_effect (input_lines S1) (input_lines S') e2" .
    from lines_effect_trans[OF first this] show ?case by (simp add: eq)
  qed
  then have eff: "map fst (input_lines S') = map fst (input_lines S)"
    "needed_of (input_lines S') name = needed_of (input_lines S) name"
    "left_of (input_lines S') name
       = map_option (replay ledger name) (left_of (input_lines S) name)"
    by (simp_all add: lines_effect_def)
  have "consumed (input_lines S') name = consumed (input_lines S) name + balance ledger name"
    if l: "left_of (input_lines S) name = Some l"
      and u: "undisturbed (entries_of ledger name) l"
  proof -
    from l obtain p where p: "map_of (input_lines S) name = Some p" "left p = l"
      by (auto simp: left_of_def)
    from eff(3) l have "left_of (input_lines S') name = Some (replay ledger name l)" by simp
    then obtain p' where p': "map_of (input_lines S') name = Some p'"
      "left p' = replay ledger name l"
      by (auto simp: left_of_def)
    from eff(2) p(1) p'(1) have n: "needed p' = needed p" by (simp add: needed_of_def)
    have "replay ledger name l = l - balance ledger name"
      unfolding replay_def balance_def by (rule undisturbed_fold[OF u])
    with p p' n show ?thesis by (simp add: consumed_def)
  qed
  with eff show ?thesis by blast
qed

theorem C5_left_replays_ledger_witness:
  "distinct (map fst (input_lines wood_state))
   \<and> snd (run oak_catalogue [Commit (add_oak 3), Uncommit ''oak'' 1] wood_state)
       = [(''wood'', Committed 6), (''wood'', Restored 2)]
   \<and> left_of (input_lines wood_state) ''wood'' = Some 5
   \<and> replay [(''wood'', Committed 6), (''wood'', Restored 2)] ''wood'' 5 = 2
   \<and> left_of (input_lines (fst (run oak_catalogue
         [Commit (add_oak 3), Uncommit ''oak'' 1] wood_state))) ''wood'' = Some 2
   \<and> needed_of (input_lines (fst (run oak_catalogue
         [Commit (add_oak 3), Uncommit ''oak'' 1] wood_state))) ''wood'' = Some 5
   \<and> snd (run oak_catalogue [Commit (add_oak 2), Uncommit ''oak'' 1] wood_state)
       = [(''wood'', Committed 4), (''wood'', Restored 2)]
   \<and> undisturbed (entries_of [(''wood'', Committed 4), (''wood'', Restored 2)] ''wood'') 5
   \<and> balance [(''wood'', Committed 4), (''wood'', Restored 2)] ''wood'' = 2
   \<and> consumed (input_lines wood_state) ''wood'' = 0
   \<and> consumed (input_lines (fst (run oak_catalogue
         [Commit (add_oak 2), Uncommit ''oak'' 1] wood_state))) ''wood'' = 2"
proof -
  let ?ops = "[Commit (add_oak 3), Uncommit ''oak'' 1]"
  let ?ops2 = "[Commit (add_oak 2), Uncommit ''oak'' 1]"
  have l: "distinct (map fst (input_lines wood_state))"
    by (simp add: input_lines_def wood_state_def new_activity_def no_requirements_def)
  have r: "run oak_catalogue ?ops wood_state =
      (\<lparr>item_table = [oak_item 1, \<lparr>item_id = 11, type_name = ''oak'', weight = 3,
           item_quality = 1, parent_entity = Some 7, role = ROLE_USED_FOR,
           visible_parts = []\<rparr>], fresh_id = 12,
         act = new_activity
                 (no_requirements\<lparr>input := Some [(''wood'', wood_line 2 (Some ''oak''))]\<rparr>) 10\<rparr>,
       [(''wood'', Committed 6), (''wood'', Restored 2)])"
    by (simp add: exec_def AddEntityToActivityAction_perform_def oak_catalogue_def add_oak_def
        wood_state_def oak_item_def item_amount_def input_lines_def new_activity_def
        no_requirements_def wood_line_def commit_def Let_def move_entity_between_entities_def
        being_in_def move_stackable_resource_def same_pile_def set_line_def
        update_activity_requirements_def uncommit_def trunc_def
        fl_zero fl_one fl_two fl_three fl_four fl_five fl_six fl_minus_one fl_five_halves)
  have r2: "run oak_catalogue ?ops2 wood_state =
      (\<lparr>item_table = [oak_item 2, \<lparr>item_id = 11, type_name = ''oak'', weight = 2,
           item_quality = 1, parent_entity = Some 7, role = ROLE_USED_FOR,
           visible_parts = []\<rparr>], fresh_id = 12,
         act = new_activity
                 (no_requirements\<lparr>input := Some [(''wood'', wood_line 3 (Some ''oak''))]\<rparr>) 10\<rparr>,
       [(''wood'', Committed 4), (''wood'', Restored 2)])"
    by (simp add: exec_def AddEntityToActivityAction_perform_def oak_catalogue_def add_oak_def
        wood_state_def oak_item_def item_amount_def input_lines_def new_activity_def
        no_requirements_def wood_line_def commit_def Let_def move_entity_between_entities_def
        being_in_def move_stackable_resource_def same_pile_def set_line_def
        update_activity_requirements_def uncommit_def trunc_def
        fl_zero fl_one fl_two fl_three fl_four fl_five fl_six fl_minus_one fl_five_halves)
  have i: "left_of (input_lines wood_state) ''wood'' = Some 5"
    "needed_of (input_lines wood_state) ''wood'' = Some 5"
    "consumed (input_lines wood_state) ''wood'' = 0"
    by (simp_all add: left_of_def needed_of_def consumed_def input_lines_def wood_state_def
        new_activity_def no_requirements_def wood_line_def)
  have p: "replay [(''wood'', Committed 6), (''wood'', Restored 2)] ''wood'' 5 = 2"
    by (simp add: fl_zero fl_two fl_minus_one)
  have u: "undisturbed (entries_of [(''wood'', Committed 4), (''wood'', Restored 2)] ''wood'') 5"
    by (simp add: entries_of_def fl_one fl_three)
  have b: "balance [(''wood'', Committed 4), (''wood'', Restored 2)] ''wood'' = 2"
    by (simp add: balance_def entries_of_def)
  show ?thesis
    using C5_left_replays_ledger [OF l r, of "''wood''"]
      C5_left_replays_ledger [OF l r2, of "''wood''" 5] l r r2 i p u b
    by simp
qed

text \<open>
  The claim as stated fails: committing \<open>3\<close> oak (worth \<open>6\<close> wood) to a line that needs
  \<open>5\<close> wood moves all \<open>3\<close> into the activity and leaves \<open>left = 0\<close>, so that
  \<open>needed - left = 5\<close> is neither the \<open>6\<close> units nor the \<open>3\<close> items committed.
\<close>

theorem C5_commit_exceeds_consumed:
  "AddEntityToActivityAction_perform oak_catalogue (add_oak 3) wood_state =
     (Inr (''wood'', 3, 6),
      \<lparr>item_table = [oak_item 1, \<lparr>item_id = 11, type_name = ''oak'', weight = 3,
          item_quality = 1, parent_entity = Some 7, role = ROLE_USED_FOR,
          visible_parts = []\<rparr>], fresh_id = 12,
        act = new_activity
                (no_requirements\<lparr>input := Some [(''wood'', wood_line 0 (Some ''oak''))]\<rparr>) 10\<rparr>)
   \<and> needed (wood_line 0 (Some ''oak'')) - left (wood_line 0 (Some ''oak'')) = 5"
  by (simp add: AddEntityToActivityAction_perform_def oak_catalogue_def add_oak_def
      wood_state_def oak_item_def item_amount_def input_lines_def new_activity_def
      no_requirements_def wood_line_def commit_def Let_def move_entity_between_entities_def
      being_in_def move_stackable_resource_def same_pile_def set_line_def trunc_def
      fl_three fl_four fl_six fl_minus_one fl_five_halves)

subsection \<open>Hits in combat\<close>

text \<open>
  With \<open>States.DAMAGE\<close> normalized, a hit on a fully damaged target leaves its damage
  at \<open>1\<close>, while the whole hit goes into the record of the combat.
\<close>

lemma offensive_hit_damage:
  "calculate_hit_damage STANCE_OFFENSIVE STANCE_OFFENSIVE = 5404319552844596 / 2 ^ 55"
proof -
  have ne: "STANCE_OFFENSIVE \<noteq> STANCE_DEFENSIVE"
    by (simp add: STANCE_OFFENSIVE_def STANCE_DEFENSIVE_def)
  show ?thesis
    unfolding calculate_hit_damage_def Let_def fl_tenth fl_three_halves
    by (simp only: ne if_True if_False simp_thms fl_offensive)
qed

lemma execute_hit_at_full_damage:
  "damage (execute_hit normalized_damage STANCE_OFFENSIVE STANCE_OFFENSIVE 3 fully_damaged) 3 = 1
   \<and> get_recorded_damage
         (execute_hit normalized_damage STANCE_OFFENSIVE STANCE_OFFENSIVE 3 fully_damaged) 3
       = 5404319552844596 / 2 ^ 55"
proof -
  have v: "fl (damage fully_damaged 3 + calculate_hit_damage STANCE_OFFENSIVE STANCE_OFFENSIVE)
             = 5179139571476070 / 2 ^ 52"
    unfolding offensive_hit_damage using fl_one_plus_offensive
    by (simp only: fully_damaged_def fight.simps)
  have r: "fl (0 + calculate_hit_damage STANCE_OFFENSIVE STANCE_OFFENSIVE)
             = 5404319552844596 / 2 ^ 55"
    unfolding offensive_hit_damage add_0
    by (simp add: fl_def ilog2_def bits.simps pow2_def round_half_even_def Let_def)
  have "damage (execute_hit normalized_damage STANCE_OFFENSIVE STANCE_OFFENSIVE 3 fully_damaged) 3
          = 1"
    unfolding execute_hit_def set_damage_def clamp_to_0_1_def Let_def v
    by (simp add: normalized_damage_def)
  moreover have "get_recorded_damage
         (execute_hit normalized_damage STANCE_OFFENSIVE STANCE_OFFENSIVE 3 fully_damaged) 3
       = 5404319552844596 / 2 ^ 55"
  proof -
    have "get_recorded_damage
         (execute_hit normalized_damage STANCE_OFFENSIVE STANCE_OFFENSIVE 3 fully_damaged) 3
       = fl (0 + calculate_hit_damage STANCE_OFFENSIVE STANCE_OFFENSIVE)"
      by (simp add: execute_hit_def set_damage_def Let_def get_recorded_damage_def
          fully_damaged_def)
    then show ?thesis unfolding r .
  qed
  ultimately show ?thesis by simp
qed

text \<open>
  C8 (as amended). The damage of a hit is the double \<open>0.1\<close>, multiplied by \<open>1.5\<close> when
  the attacker is offensive and divided by \<open>2\<close> when the target is defensive, with the
  rounding of doubles: \<open>3602879701896397 / 2^55\<close> (the double \<open>0.1\<close>),
  \<open>5404319552844596 / 2^55\<close> (\<open>0.15000000000000002\<close>) for an offensive attacker, and half
  of each against a defensive target. \<open>execute_hit\<close> adds it, as doubles, to the target's
  entry in the combat's record and to the damage of the target; the new damage, when
  \<open>States.DAMAGE\<close> is a normalized state and the sum is below \<open>0\<close> or above \<open>1\<close>, is
  \<open>util.clamp_0_1\<close> of the sum.
\<close>

theorem C8_hit_damage:
  "calculate_hit_damage stance target_stance =
     (if stance = STANCE_OFFENSIVE
      then (if target_stance = STANCE_DEFENSIVE then 5404319552844596 / 2 ^ 56
            else 5404319552844596 / 2 ^ 55)
      else (if target_stance = STANCE_DEFENSIVE then 3602879701896397 / 2 ^ 56
            else 3602879701896397 / 2 ^ 55))
   \<and> damage (execute_hit rules stance target_stance foe S) foe
       = (let v = fl (damage S foe + calculate_hit_damage stance target_stance)
          in if damage_normalized rules \<and> (v < 0 \<or> 1 < v) then clamp_0_1 rules v else v)
   \<and> get_recorded_damage (execute_hit rules stance target_stance foe S) foe
       = fl (get_recorded_damage S foe + calculate_hit_damage stance target_stance)"
proof -
  have "calculate_hit_damage stance target_stance =
     (if stance = STANCE_OFFENSIVE
      then (if target_stance = STANCE_DEFENSIVE then 5404319552844596 / 2 ^ 56
            else 5404319552844596 / 2 ^ 55)
      else (if target_stance = STANCE_DEFENSIVE then 3602879701896397 / 2 ^ 56
            else 3602879701896397 / 2 ^ 55))"
  proof (cases "stance = STANCE_OFFENSIVE"; cases "target_stance = STANCE_DEFENSIVE")
    assume a: "stance = STANCE_OFFENSIVE" "target_stance = STANCE_DEFENSIVE"
    show ?thesis
      unfolding calculate_hit_damage_def Let_def fl_tenth fl_three_halves fl_two
      by (simp only: a if_True simp_thms fl_offensive fl_half_offensive)
  next
    assume a: "stance = STANCE_OFFENSIVE" "target_stance \<noteq> STANCE_DEFENSIVE"
    show ?thesis
      unfolding calculate_hit_damage_def Let_def fl_tenth fl_three_halves fl_two
      by (simp only: a if_True if_False simp_thms fl_offensive)
  next
    assume a: "stance \<noteq> STANCE_OFFENSIVE" "target_stance = STANCE_DEFENSIVE"
    show ?thesis
      unfolding calculate_hit_damage_def Let_def fl_tenth fl_three_halves fl_two
      by (simp only: a if_True if_False simp_thms fl_half_tenth)
  next
    assume a: "stance \<noteq> STANCE_OFFENSIVE" "target_stance \<noteq> STANCE_DEFENSIVE"
    show ?thesis
      unfolding calculate_hit_damage_def Let_def fl_tenth fl_three_halves fl_two
      by (simp only: a if_False simp_thms)
  qed
  moreover have "damage (execute_hit rules stance target_stance foe S) foe
       = (let v = fl (damage S foe + calculate_hit_damage stance target_stance)
          in if damage_normalized rules \<and> (v < 0 \<or> 1 < v) then clamp_0_1 rules v else v)"
    by (simp add: execute_hit_def set_damage_def clamp_to_0_1_def Let_def)
  moreover have "get_recorded_damage (execute_hit rules stance target_stance foe S) foe
       = fl (get_recorded_damage S foe + calculate_hit_damage stance target_stance)"
    by (simp add: execute_hit_def set_damage_def Let_def get_recorded_damage_def
        map_of_dict_set)
  ultimately show ?thesis by blast
qed

text \<open>
  The claim as stated fails: for an offensive attacker and a target that is not
  defensive the damage is not \<open>0.15\<close>, neither the number nor the double nearest to it.
\<close>

theorem C8_offensive_hit_is_not_fifteen_hundredths:
  "calculate_hit_damage STANCE_OFFENSIVE STANCE_OFFENSIVE = 5404319552844596 / 2 ^ 55
   \<and> fl (15 / 100) = 5404319552844595 / 2 ^ 55
   \<and> calculate_hit_damage STANCE_OFFENSIVE STANCE_OFFENSIVE \<noteq> 15 / 100
   \<and> calculate_hit_damage STANCE_OFFENSIVE STANCE_OFFENSIVE \<noteq> fl (15 / 100)"
proof -
  have ne: "STANCE_OFFENSIVE \<noteq> STANCE_DEFENSIVE"
    by (simp add: STANCE_OFFENSIVE_def STANCE_DEFENSIVE_def)
  have d: "calculate_hit_damage STANCE_OFFENSIVE STANCE_OFFENSIVE = 5404319552844596 / 2 ^ 55"
    unfolding calculate_hit_damage_def Let_def fl_tenth fl_three_halves
    by (simp only: ne if_True if_False simp_thms fl_offensive)
  show ?thesis
    unfolding d fl_fifteen_hundredths by simp
qed

end
